theory Spec2Isabelle
  imports Complex_Main "HOL-Library.Word"
begin

unbundle bit_operations_syntax

section \<open>Spectron C12666MA driver: data model\<close>

text \<open>
  The driver keeps its timing state in file-scope variables of
  \<^verbatim>\<open>C12666MA.cpp\<close> and its configuration in the members of class
  \<^verbatim>\<open>C12666MA\<close>. Unsigned machine integers are words of their width, with
  the wrap-around of C. Values of type \<^verbatim>\<open>float\<close> and \<^verbatim>\<open>double\<close>
  are idealised as real numbers, without rounding, infinities or NaN, wherever the
  functions only compare, store and scale them. The integration search truncates a
  \<^verbatim>\<open>float\<close> to an integer; there the single-precision operations are modelled
  with their rounding.
\<close>

type_synonym u8 = "8 word"
type_synonym u16 = "16 word"
type_synonym u32 = "32 word"

datatype spec_state_t =
  SPEC_LEAD | SPEC_RESET | SPEC_RESET2 | SPEC_INTEGRATION | SPEC_READ | SPEC_TRAIL | SPEC_STOP

subsection \<open>Compile-time constants\<close>

definition SPEC_PIXELS :: nat where
  \<comment> \<open>Modelled from the spec: \<^verbatim>\<open>SPEC_PIXELS\<close> is defined in \<^verbatim>\<open>C12666MA.h\<close>, which is
      not among the sources; the sensor has 256 pixels (``for 256 pixels train is
      4*256+6=1030 CLK cycles'').\<close>
  "SPEC_PIXELS = 256"

definition TIMER_US_FACTOR :: nat where
  "TIMER_US_FACTOR = 10"

definition SPEC_CLK_TICK_TIMER :: nat where
  \<comment> \<open>The \<^verbatim>\<open>#else\<close> branch: nothing in the sources defines \<^verbatim>\<open>ADC_AVG_4\<close>.\<close>
  "SPEC_CLK_TICK_TIMER = 50"

definition ticksToUsec :: "u32 \<Rightarrow> u32" where
  "ticksToUsec x = x * of_nat SPEC_CLK_TICK_TIMER div of_nat TIMER_US_FACTOR"

definition uSecToTicks :: "u32 \<Rightarrow> u32" where
  "uSecToTicks x = x * of_nat TIMER_US_FACTOR div of_nat SPEC_CLK_TICK_TIMER"

definition ADC_MAX_VALUE :: nat where
  "ADC_MAX_VALUE = 65535"

definition TICKS_PER_PIXEL :: nat where
  "TICKS_PER_PIXEL = 8"

definition MIN_INTEG_TIME_US :: u32 where
  "MIN_INTEG_TIME_US = 1000"

definition MAX_INTEG_TIME_US :: u32 where
  "MAX_INTEG_TIME_US = 10000000"

definition DEF_LEAD_TICKS :: nat where
  "DEF_LEAD_TICKS = 64"

definition TRAIL_TICKS :: nat where
  "TRAIL_TICKS = 12"

definition READ_TICKS :: nat where
  "READ_TICKS = SPEC_PIXELS * TICKS_PER_PIXEL + TRAIL_TICKS"

definition EXT_TRG_HIGH_TICKS :: u32 where
  "EXT_TRG_HIGH_TICKS = uSecToTicks 1000"

definition ST_BIT :: u8 where
  "ST_BIT = 1"

definition READY_BIT :: u8 where
  "READY_BIT = 2"

definition CLK_HIGH :: u8 where
  "CLK_HIGH = 1"

subsection \<open>The waveform table\<close>

text \<open>
  \<^verbatim>\<open>initSpecTimerData\<close> fills the static array \<^verbatim>\<open>specRead[READ_TICKS]\<close>
  (zero-initialised, as every static array is) in three steps: every entry gets
  \<^verbatim>\<open>ST_BIT\<close>, the first two entries lose it, and every eighth entry from index 7
  gets \<^verbatim>\<open>READY_BIT\<close>. The two \<^verbatim>\<open>for\<close> loops are recursions on the index.
\<close>

function fill_ST :: "nat \<Rightarrow> nat \<Rightarrow> u8 list \<Rightarrow> u8 list" where
  "fill_ST n i xs = (if i < n then fill_ST n (i + 1) (xs[i := 0 OR ST_BIT]) else xs)"
  by pat_completeness auto
termination
  by (relation "measure (\<lambda>(n, i, xs). n - i)") auto

declare fill_ST.simps [simp del]

function fill_READY :: "nat \<Rightarrow> nat \<Rightarrow> u8 list \<Rightarrow> u8 list" where
  "fill_READY n i xs =
     (if i < n then fill_READY n (i + TICKS_PER_PIXEL) (xs[i := xs ! i OR READY_BIT]) else xs)"
  by pat_completeness auto
termination
  by (relation "measure (\<lambda>(n, i, xs). n - i)") (auto simp: TICKS_PER_PIXEL_def)

declare fill_READY.simps [simp del]

definition initSpecTimerData :: "u8 list" where
  "initSpecTimerData =
     (let xs = fill_ST READ_TICKS 0 (replicate READ_TICKS 0);
          xs = xs[0 := xs ! 0 AND NOT ST_BIT];
          xs = xs[1 := xs ! 1 AND NOT ST_BIT]
      in fill_READY (SPEC_PIXELS * TICKS_PER_PIXEL + 1) 7 xs)"

definition ready_indices :: "u8 list \<Rightarrow> nat list" where
  "ready_indices xs = filter (\<lambda>i. xs ! i AND READY_BIT \<noteq> 0) [0..<length xs]"

subsection \<open>Device state\<close>

datatype gain_t = NO_GAIN | HIGH_GAIN

datatype adc_ref_t = ADC_2_5V | ADC_3V | ADC_4_096V | ADC_5V

datatype measure_t = MEASURE_RELATIVE | MEASURE_VOLTAGE | MEASURE_ABSOLUTE

text \<open>
  The three enumerations above are declared in \<^verbatim>\<open>C12666MA.h\<close>; their enumerators
  are the names the source uses. \<^verbatim>\<open>adcVoltages\<close> is the table
  \<^verbatim>\<open>{ 2.5, 3.0, 4.096, 5.0 }\<close> indexed by the reference enumerator.
\<close>

fun adcVoltages :: "adc_ref_t \<Rightarrow> real" where
  "adcVoltages ADC_2_5V = 2.5"
| "adcVoltages ADC_3V = 3.0"
| "adcVoltages ADC_4_096V = 4.096"
| "adcVoltages ADC_5V = 5.0"

definition NO_PIN :: u8 where
  \<comment> \<open>Modelled from the spec: \<^verbatim>\<open>NO_PIN\<close> is defined in \<^verbatim>\<open>C12666MA.h\<close>, which is
      not among the sources; it marks a line that is not wired. No result below depends on
      the value chosen.\<close>
  "NO_PIN = 255"

definition MIN_SAT_VOLTAGE_HIGH_GAIN :: real where
  "MIN_SAT_VOLTAGE_HIGH_GAIN = 2.3"

definition MAX_SAT_VOLTAGE_HIGH_GAIN :: real where
  "MAX_SAT_VOLTAGE_HIGH_GAIN = 4.0"

definition MIN_SAT_VOLTAGE_NO_GAIN :: real where
  "MIN_SAT_VOLTAGE_NO_GAIN = 1.4"

definition MAX_SAT_VOLTAGE_NO_GAIN :: real where
  "MAX_SAT_VOLTAGE_NO_GAIN = 2.7"

datatype eeprom_addr =
  EEPROM_INTEGRATION_TIME | EEPROM_SAT_VOLTAGE_HIGH_GAIN | EEPROM_SAT_VOLTAGE_NO_GAIN

datatype eeprom_value = EE_u32 u32 | EE_float real

text \<open>
  One record holds the file-scope variables of \<^verbatim>\<open>C12666MA.cpp\<close> (down to
  \<open>trg_pending\<close>) and the members of the \<^verbatim>\<open>C12666MA\<close> object that the
  modelled functions use. The pointers \<^verbatim>\<open>specData\<close> and
  \<^verbatim>\<open>specDataCounter\<close> run over the arrays \<^verbatim>\<open>data\<close> and
  \<^verbatim>\<open>dataCounts\<close>: \<open>None\<close> is the null pointer, \<open>Some i\<close> points at
  element \<open>i\<close>. \<open>pin_level\<close> is the level last written to each output line,
  \<open>trg_pending\<close> the pending bit of the software-raised TRG interrupt, and
  \<open>eeprom\<close> the configuration store. Isabelle reserves names that end in an underscore,
  so a name \<^verbatim>\<open>x_\<close> of the source is written \<open>x_m\<close>.
\<close>

record device =
  INTEG_TICKS :: u32
  LEAD_TICKS :: u32
  specRead :: "u8 list"
  measuringData_m :: bool
  timerOn :: bool
  specState :: spec_state_t
  specDataReady :: bool
  specCLK :: u8
  specST :: u8
  specCounter :: u32
  extTRGCounter :: u32
  specData :: "nat option"
  specDataCounter :: "nat option"
  adcPinCNV :: u8
  specPinCLK :: u8
  specPinST :: u8
  extPinTRG :: u8
  extPinLIGHT :: u8
  data :: "u32 list"
  dataCounts :: "u8 list"
  pin_level :: "u8 \<Rightarrow> bool"
  trg_pending :: bool
  eeprom :: "eeprom_addr \<rightharpoonup> eeprom_value"
  ext_trg_m :: u8
  ext_trg_ls_m :: u8
  adc_cnv_m :: u8
  gain_m :: gain_t
  adcRef_m :: adc_ref_t
  measurementType_m :: measure_t
  satVoltageHighGain_m :: real
  satVoltageNoGain_m :: real
  extTrgMeasDelayUs_m :: u32
  data_m :: "real list"
  blackLevels_m :: "real list"
  applyBandPassCorrection_m :: bool

definition pinSetFast :: "u8 \<Rightarrow> device \<Rightarrow> device" where
  "pinSetFast pin s = s\<lparr>pin_level := (pin_level s)(pin := True)\<rparr>"

definition pinResetFast :: "u8 \<Rightarrow> device \<Rightarrow> device" where
  "pinResetFast pin s = s\<lparr>pin_level := (pin_level s)(pin := False)\<rparr>"

definition pinSetVal :: "u8 \<Rightarrow> u8 \<Rightarrow> device \<Rightarrow> device" where
  "pinSetVal pin val s = (if val \<noteq> 0 then pinSetFast pin s else pinResetFast pin s)"

subsection \<open>The timer interrupt\<close>

text \<open>
  \<^verbatim>\<open>spectroClockInterrupt\<close> runs once per timer period. The model starts where the
  handler has found its interrupt flag set. Each \<open>tick_\<close> function is one
  \<^verbatim>\<open>case\<close> of the \<^verbatim>\<open>switch\<close> on \<^verbatim>\<open>specState\<close>;
  \<open>process_trigger\<close> is the block after the \<^verbatim>\<open>switch\<close>.
\<close>

definition tick_LEAD :: "device \<Rightarrow> device" where
  "tick_LEAD s =
     (let s = s\<lparr>specCounter := specCounter s + 1\<rparr>
      in if specCounter s = LEAD_TICKS s
         then s\<lparr>specCounter := 0, specState := SPEC_RESET,
                specST := specRead s ! 0 AND ST_BIT\<rparr>
         else s)"

definition tick_RESET :: "device \<Rightarrow> device" where
  "tick_RESET s =
     (let s = s\<lparr>specCounter := specCounter s + 1\<rparr>;
          s = (if specCounter s = of_nat READ_TICKS
               then s\<lparr>specCounter := 0, specState := SPEC_RESET2\<rparr> else s)
      in s\<lparr>specST := specRead s ! unat (specCounter s) AND ST_BIT\<rparr>)"

definition tick_RESET2 :: "device \<Rightarrow> device" where
  "tick_RESET2 s =
     (let s = s\<lparr>specCounter := specCounter s + 1\<rparr>
      in if specCounter s = of_nat READ_TICKS
         then (let s = s\<lparr>specCounter := 0, specState := SPEC_INTEGRATION\<rparr>
               in if extPinLIGHT s \<noteq> NO_PIN then pinSetFast (extPinLIGHT s) s else s)
         else s\<lparr>specST := specRead s ! unat (specCounter s) AND ST_BIT\<rparr>)"

definition tick_INTEGRATION :: "device \<Rightarrow> device" where
  "tick_INTEGRATION s =
     (let s = s\<lparr>specCounter := specCounter s + 1\<rparr>
      in if specCounter s = INTEG_TICKS s
         then s\<lparr>specCounter := 0, specState := SPEC_READ,
                specST := specRead s ! 0 AND ST_BIT\<rparr>
         else s)"

definition tick_READ :: "device \<Rightarrow> device" where
  "tick_READ s =
     (let s = (if specRead s ! unat (specCounter s) AND READY_BIT \<noteq> 0
               then s\<lparr>specDataReady := True, trg_pending := True\<rparr>
               else s\<lparr>specDataReady := False\<rparr>);
          s = s\<lparr>specCounter := specCounter s + 1\<rparr>
      in if specCounter s = of_nat READ_TICKS
         then s\<lparr>specCounter := 0, specState := SPEC_TRAIL,
                specData := None, specDataCounter := None\<rparr>
         else s\<lparr>specST := specRead s ! unat (specCounter s) AND ST_BIT\<rparr>)"

definition tick_TRAIL :: "device \<Rightarrow> device" where
  "tick_TRAIL s =
     (let s = s\<lparr>specCounter := specCounter s + 1\<rparr>
      in if specCounter s = of_nat TRAIL_TICKS
         then (let s = s\<lparr>specCounter := 0, specState := SPEC_STOP, specCLK := 0, specST := 0\<rparr>
               in if extPinLIGHT s \<noteq> NO_PIN then pinResetFast (extPinLIGHT s) s else s)
         else s)"

definition tick_STOP :: "device \<Rightarrow> device" where
  "tick_STOP s = s\<lparr>specCLK := 0\<rparr>"

definition process_trigger :: "device \<Rightarrow> device" where
  "process_trigger s =
     (if extTRGCounter s \<noteq> 0
      then (let s = s\<lparr>extTRGCounter := extTRGCounter s - 1\<rparr>
            in if extTRGCounter s = EXT_TRG_HIGH_TICKS then pinSetFast (extPinTRG s) s
               else if extTRGCounter s = 0 then pinResetFast (extPinTRG s) s
               else s)
      else s)"

definition spectroClockInterrupt :: "device \<Rightarrow> device" where
  "spectroClockInterrupt s =
     (if \<not> timerOn s then s
      else
        let s = pinSetVal (specPinCLK s) (specCLK s) s;
            s = pinSetVal (specPinST s) (specST s) s;
            s = s\<lparr>specCLK := specCLK s XOR CLK_HIGH\<rparr>;
            s = (case specState s of
                   SPEC_LEAD \<Rightarrow> tick_LEAD s
                 | SPEC_RESET \<Rightarrow> tick_RESET s
                 | SPEC_RESET2 \<Rightarrow> tick_RESET2 s
                 | SPEC_INTEGRATION \<Rightarrow> tick_INTEGRATION s
                 | SPEC_READ \<Rightarrow> tick_READ s
                 | SPEC_TRAIL \<Rightarrow> tick_TRAIL s
                 | SPEC_STOP \<Rightarrow> tick_STOP s)
        in process_trigger s)"

subsection \<open>Starting and stopping the timer\<close>

text \<open>
  Of \<^verbatim>\<open>startSpecTimer\<close> and \<^verbatim>\<open>stopSpecTimer\<close> the model keeps what they do
  to the driver's variables and output lines; the timer and interrupt-controller registers
  are not part of the state, except that both clear the pending TRG interrupt.
\<close>

definition init_lead_and_trigger :: "u32 \<Rightarrow> bool \<Rightarrow> device \<Rightarrow> device" where
  \<comment> \<open>the block ``init lead and ext counter states'' of \<^verbatim>\<open>startSpecTimer\<close>\<close>
  "init_lead_and_trigger extTrgMeasDelay doExtTriggering s =
     (if doExtTriggering \<and> extPinTRG s \<noteq> NO_PIN \<and> extTrgMeasDelay > 0
      then
        let delayTimeTicks = uSecToTicks extTrgMeasDelay;
            delayTimeTicks = delayTimeTicks AND NOT 1;
            s = (if delayTimeTicks > of_nat (DEF_LEAD_TICKS + READ_TICKS + READ_TICKS)
                 then s\<lparr>LEAD_TICKS := delayTimeTicks - of_nat READ_TICKS - of_nat READ_TICKS\<rparr>
                 else s\<lparr>LEAD_TICKS := of_nat DEF_LEAD_TICKS\<rparr>)
        in s\<lparr>extTRGCounter :=
               EXT_TRG_HIGH_TICKS + LEAD_TICKS s + of_nat READ_TICKS + of_nat READ_TICKS
                 - delayTimeTicks\<rparr>
      else s\<lparr>extTRGCounter := 0, LEAD_TICKS := of_nat DEF_LEAD_TICKS\<rparr>)"

definition startSpecTimer :: "u32 \<Rightarrow> bool \<Rightarrow> device \<Rightarrow> device" where
  "startSpecTimer extTrgMeasDelay doExtTriggering s =
     (if timerOn s then s
      else
        let s = s\<lparr>timerOn := True, specCounter := 0\<rparr>;
            s = init_lead_and_trigger extTrgMeasDelay doExtTriggering s;
            s = s\<lparr>specState := SPEC_LEAD, specDataReady := False,
                   specST := 1, specCLK := CLK_HIGH\<rparr>;
            s = pinResetFast (specPinCLK s) s;
            s = pinSetFast (specPinST s) s;
            s = (if extPinTRG s \<noteq> NO_PIN then pinResetFast (extPinTRG s) s else s);
            s = (if extPinLIGHT s \<noteq> NO_PIN then pinResetFast (extPinLIGHT s) s else s)
        in s\<lparr>trg_pending := False\<rparr>)"

definition stopSpecTimer :: "device \<Rightarrow> device" where
  "stopSpecTimer s =
     (let s = s\<lparr>trg_pending := False\<rparr>;
          s = pinResetFast (specPinCLK s) s;
          s = pinResetFast (specPinST s) s;
          s = (if extPinTRG s \<noteq> NO_PIN then pinResetFast (extPinTRG s) s else s);
          s = (if extPinLIGHT s \<noteq> NO_PIN then pinResetFast (extPinLIGHT s) s else s)
      in s\<lparr>timerOn := False\<rparr>)"

definition startADC :: "u8 \<Rightarrow> device \<Rightarrow> device" where
  \<comment> \<open>the conversion line is driven high while the SPI is set up, then low\<close>
  "startADC adc_cnv_pin s = pinResetFast adc_cnv_pin (pinSetFast adc_cnv_pin s)"

subsection \<open>The TRG interrupt and the ADC reads\<close>

text \<open>
  \<^verbatim>\<open>readADC\<close> (two conversions per pixel, \<^verbatim>\<open>ADC_AVG_4\<close> being undefined)
  stores the first conversion and counts it; the second one is added and counted only when
  \<^verbatim>\<open>specDataReady\<close> is still set before and after the conversion, which the timer
  interrupt decides. The converter is an input of the model: a burst is the first
  conversion result and, when the second read completes, its result. The pointers stay
  within the arrays, one step per ready tick of a readout pass; a list update beyond the
  end of a list changes nothing.
\<close>

type_synonym adc_burst = "u16 \<times> u16 option"

definition readADC :: "adc_burst \<Rightarrow> nat \<Rightarrow> nat \<Rightarrow> device \<Rightarrow> device" where
  "readADC burst d c s =
     (let s = pinSetFast (adcPinCNV s) s;
          s = pinResetFast (adcPinCNV s) s;
          s = s\<lparr>data := (data s)[d := ucast (fst burst)]\<rparr>;
          s = s\<lparr>dataCounts := (dataCounts s)[c := dataCounts s ! c + 1]\<rparr>
      in case snd burst of
           None \<Rightarrow> s
         | Some v \<Rightarrow>
             (let s = s\<lparr>data := (data s)[d := data s ! d + ucast v]\<rparr>
              in s\<lparr>dataCounts := (dataCounts s)[c := dataCounts s ! c + 1]\<rparr>))"

text \<open>
  \<^verbatim>\<open>spectroTRGInterrupt\<close>: \<open>adc k\<close> is the burst that the converter delivers
  for the pixel at offset \<open>k\<close>. Both pointers are set and cleared together, so the
  branch for a null counter pointer is never taken. The system handler that the source
  calls last, when the interrupt line is shared, is not part of the driver.
\<close>

definition spectroTRGInterrupt :: "(nat \<Rightarrow> adc_burst) \<Rightarrow> device \<Rightarrow> device" where
  "spectroTRGInterrupt adc s =
     (if trg_pending s
      then (let s = s\<lparr>trg_pending := False\<rparr>
            in if specDataReady s
               then (case (specData s, specDataCounter s) of
                       (Some d, Some c) \<Rightarrow>
                         readADC (adc d) d c
                           (s\<lparr>specData := Some (d + 1), specDataCounter := Some (c + 1)\<rparr>)
                     | _ \<Rightarrow> s)
               else s)
      else s)"

text \<open>
  The caller's busy wait \<^verbatim>\<open>while (specState != SPEC_STOP) ;\<close>. Between two looks
  at \<^verbatim>\<open>specState\<close> one timer period passes: the timer interrupt runs, then the TRG
  interrupt it may have raised. A wait that never ends is \<open>None\<close>.
\<close>

partial_function (option) waitStop :: "(nat \<Rightarrow> adc_burst) \<Rightarrow> device \<Rightarrow> device option" where
  "waitStop adc s =
     (if specState s = SPEC_STOP then Some s
      else waitStop adc (spectroTRGInterrupt adc (spectroClockInterrupt s)))"

subsection \<open>Integration time\<close>

definition setIntTime :: "u32 \<Rightarrow> bool \<Rightarrow> device \<Rightarrow> device" where
  "setIntTime timeUs storeInEeprom s =
     (if timerOn s then s
      else
        let intTime = timeUs * of_nat TIMER_US_FACTOR;
            minIntTime = of_nat (SPEC_CLK_TICK_TIMER * READ_TICKS)
                           + MIN_INTEG_TIME_US * of_nat TIMER_US_FACTOR;
            intTime = (if intTime < minIntTime then minIntTime else intTime);
            intTime = (if intTime > MAX_INTEG_TIME_US * of_nat TIMER_US_FACTOR
                       then MAX_INTEG_TIME_US * of_nat TIMER_US_FACTOR else intTime);
            s = s\<lparr>INTEG_TICKS := intTime div of_nat SPEC_CLK_TICK_TIMER - of_nat READ_TICKS + 1\<rparr>;
            s = (if INTEG_TICKS s = 0
                 then s\<lparr>INTEG_TICKS := uSecToTicks MIN_INTEG_TIME_US\<rparr> else s);
            s = (if INTEG_TICKS s AND 1 \<noteq> 0
                 then s\<lparr>INTEG_TICKS := INTEG_TICKS s + 1\<rparr> else s)
        in if storeInEeprom
           then s\<lparr>eeprom := (eeprom s)(EEPROM_INTEGRATION_TIME \<mapsto> EE_u32 (INTEG_TICKS s))\<rparr>
           else s)"

definition getIntTime :: "device \<Rightarrow> u32" where
  "getIntTime s = ticksToUsec (INTEG_TICKS s + of_nat READ_TICKS)"

subsection \<open>Measurement processing\<close>

definition measureValue :: "measure_t \<Rightarrow> real \<Rightarrow> real \<Rightarrow> u32 \<Rightarrow> u8 \<Rightarrow> real" where
  \<comment> \<open>the value that one pass of the loop of \<^verbatim>\<open>processMeasurement\<close> stores\<close>
  "measureValue measurementType adcRefVoltage satVoltage d c =
     (if c \<noteq> 0
      then (if measurementType = MEASURE_VOLTAGE
            then (real (unat d) * adcRefVoltage) / real (unat c * ADC_MAX_VALUE)
            else if measurementType = MEASURE_ABSOLUTE
            then (real (unat d) * adcRefVoltage)
                   / (satVoltage * real (unat c) * real ADC_MAX_VALUE)
            else real (unat d) / real (unat c * ADC_MAX_VALUE))
      else 0)"

function processMeasurement_loop ::
  "device \<Rightarrow> measure_t \<Rightarrow> real \<Rightarrow> real \<Rightarrow> nat \<Rightarrow> real list \<Rightarrow> real \<Rightarrow> real \<times> real list" where
  "processMeasurement_loop s measurementType adcRefVoltage satVoltage i measurement maxVal =
     (if i < SPEC_PIXELS
      then
        let measurement = measurement[i :=
              measureValue measurementType adcRefVoltage satVoltage (data s ! i) (dataCounts s ! i)];
            maxVal = (if measurement ! i > maxVal then measurement ! i else maxVal)
        in processMeasurement_loop s measurementType adcRefVoltage satVoltage (i + 1)
             measurement maxVal
      else (maxVal, measurement))"
  by pat_completeness auto
termination
  by (relation "measure (\<lambda>(s, t, v, w, i, m, x). SPEC_PIXELS - i)") auto

declare processMeasurement_loop.simps [simp del]

text \<open>
  \<^verbatim>\<open>processMeasurement\<close> writes through the pointer it is given
  (\<^verbatim>\<open>data_\<close> or \<^verbatim>\<open>blackLevels_\<close>): the model takes that array and returns the
  maximum with the array as written; the caller stores it.
\<close>

definition processMeasurement :: "device \<Rightarrow> real list \<Rightarrow> measure_t \<Rightarrow> real \<times> real list" where
  "processMeasurement s measurement measurementType =
     (let maxVal = 0;
          adcRefVoltage = adcVoltages (adcRef_m s);
          satVoltage = (if gain_m s = HIGH_GAIN then satVoltageHighGain_m s
                        else satVoltageNoGain_m s)
      in processMeasurement_loop s measurementType adcRefVoltage satVoltage 0 measurement maxVal)"

subsection \<open>Reading the spectrometer\<close>

text \<open>
  \<^verbatim>\<open>readSpectrometer\<close> in three parts: what it does before the busy wait, the wait,
  and what it does after it.
\<close>

definition readSpectrometer_setup :: "u32 \<Rightarrow> bool \<Rightarrow> bool \<Rightarrow> device \<Rightarrow> device" where
  "readSpectrometer_setup timeUs doExtTriggering doLightTriggering s =
     (let s = (if timeUs > 0 then setIntTime timeUs False s else s);
          s = s\<lparr>specData := Some 0, specDataCounter := Some 0\<rparr>;
          s = s\<lparr>data := fold (\<lambda>i xs. xs[i := 0]) [0..<SPEC_PIXELS] (data s),
                 dataCounts := fold (\<lambda>i xs. xs[i := 0]) [0..<SPEC_PIXELS] (dataCounts s)\<rparr>;
          s = (if doExtTriggering then s\<lparr>extPinTRG := ext_trg_m s\<rparr> else s);
          s = (if doLightTriggering then s\<lparr>extPinLIGHT := ext_trg_ls_m s\<rparr> else s);
          s = startADC (adc_cnv_m s) s
      in startSpecTimer (extTrgMeasDelayUs_m s) doExtTriggering s)"

definition readSpectrometer_cleanup :: "u32 \<Rightarrow> u32 \<Rightarrow> device \<Rightarrow> device" where
  "readSpectrometer_cleanup timeUs savedIntegration s =
     (let s = stopSpecTimer s;
          s = (if timeUs > 0 then s\<lparr>INTEG_TICKS := savedIntegration\<rparr> else s)
      in s\<lparr>extPinTRG := NO_PIN, extPinLIGHT := NO_PIN\<rparr>)"

definition readSpectrometer ::
  "(nat \<Rightarrow> adc_burst) \<Rightarrow> u32 \<Rightarrow> bool \<Rightarrow> bool \<Rightarrow> device \<Rightarrow> device option" where
  "readSpectrometer adc timeUs doExtTriggering doLightTriggering s =
     (if timerOn s then Some s
      else
        let savedIntegration = INTEG_TICKS s;
            s = readSpectrometer_setup timeUs doExtTriggering doLightTriggering s
        in case waitStop adc s of
             None \<Rightarrow> None
           | Some s \<Rightarrow> Some (readSpectrometer_cleanup timeUs savedIntegration s))"

definition takeMeasurement ::
  "(nat \<Rightarrow> adc_burst) \<Rightarrow> u32 \<Rightarrow> bool \<Rightarrow> device \<Rightarrow> device option" where
  "takeMeasurement adc timeUs doExtTriggering s =
     (if timerOn s \<or> measuringData_m s then Some s
      else
        case readSpectrometer adc timeUs doExtTriggering doExtTriggering
               (s\<lparr>measuringData_m := True\<rparr>) of
          None \<Rightarrow> None
        | Some s \<Rightarrow>
            Some (s\<lparr>data_m := snd (processMeasurement s (data_m s) (measurementType_m s)),
                    measuringData_m := False\<rparr>))"

definition takeBlackMeasurement :: "(nat \<Rightarrow> adc_burst) \<Rightarrow> u32 \<Rightarrow> device \<Rightarrow> device option" where
  "takeBlackMeasurement adc timeUs s =
     (if timerOn s \<or> measuringData_m s then Some s
      else
        case readSpectrometer adc timeUs False False (s\<lparr>measuringData_m := True\<rparr>) of
          None \<Rightarrow> None
        | Some s \<Rightarrow>
            Some (s\<lparr>blackLevels_m :=
                      snd (processMeasurement s (blackLevels_m s) (measurementType_m s)),
                    measuringData_m := False\<rparr>))"

subsection \<open>Saturation voltages\<close>

definition setSaturationVoltages :: "real \<Rightarrow> real \<Rightarrow> bool \<Rightarrow> device \<Rightarrow> device" where
  "setSaturationVoltages satVoltageHighGain satVoltageNoGain storeInEeprom s =
     (let s = (if satVoltageHighGain > 0.0
               then
                 let s = (if satVoltageHighGain \<ge> MIN_SAT_VOLTAGE_HIGH_GAIN
                             \<and> satVoltageHighGain \<le> MAX_SAT_VOLTAGE_HIGH_GAIN
                          then s\<lparr>satVoltageHighGain_m := satVoltageHighGain\<rparr>
                          else s\<lparr>satVoltageHighGain_m := MIN_SAT_VOLTAGE_HIGH_GAIN\<rparr>)
                 in if storeInEeprom
                    then s\<lparr>eeprom := (eeprom s)(EEPROM_SAT_VOLTAGE_HIGH_GAIN \<mapsto>
                                        EE_float (satVoltageHighGain_m s))\<rparr>
                    else s
               else s)
      in if satVoltageNoGain > 0.0
         then
           let s = (if satVoltageNoGain \<ge> MIN_SAT_VOLTAGE_NO_GAIN
                       \<and> satVoltageNoGain \<le> MAX_SAT_VOLTAGE_NO_GAIN
                    then s\<lparr>satVoltageNoGain_m := satVoltageNoGain\<rparr>
                    else s\<lparr>satVoltageNoGain_m := MIN_SAT_VOLTAGE_NO_GAIN\<rparr>)
           in if storeInEeprom
              then s\<lparr>eeprom := (eeprom s)(EEPROM_SAT_VOLTAGE_NO_GAIN \<mapsto>
                                  EE_float (satVoltageNoGain_m s))\<rparr>
              else s
         else s)"

subsection \<open>Reading a measurement\<close>

definition getData :: "u16 \<Rightarrow> bool \<Rightarrow> real list \<Rightarrow> real list \<Rightarrow> real" where
  "getData pixelIdx subtractBlack dat black =
     (if \<not> subtractBlack then dat ! unat pixelIdx
      else if dat ! unat pixelIdx < black ! unat pixelIdx then 0
      else dat ! unat pixelIdx - black ! unat pixelIdx)"

definition getMeasurement :: "u16 \<Rightarrow> bool \<Rightarrow> device \<Rightarrow> real" where
  "getMeasurement pixelIdx subtractBlack s =
     (let dat = getData pixelIdx subtractBlack (data_m s) (blackLevels_m s)
      in if applyBandPassCorrection_m s
         then (if pixelIdx = 0
               then 1.083 * dat
                      - 0.083 * getData (pixelIdx + 1) subtractBlack (data_m s) (blackLevels_m s)
               else if unat pixelIdx = SPEC_PIXELS - 1
               then 1.083 * dat
                      - 0.083 * getData (pixelIdx - 1) subtractBlack (data_m s) (blackLevels_m s)
               else 1.166 * dat
                      - 0.083 * getData (pixelIdx - 1) subtractBlack (data_m s) (blackLevels_m s)
                      - 0.083 * getData (pixelIdx + 1) subtractBlack (data_m s) (blackLevels_m s))
         else dat)"

subsection \<open>Single-precision arithmetic\<close>

text \<open>
  The integration search converts the result of a \<^verbatim>\<open>float\<close> expression to an
  integer, so the rounding of each single operation decides the result, and here it is
  modelled: an operation delivers its exact result rounded to the nearest number with 24
  significant bits, ties to even, with gradual underflow (the exponent stops at
  \<open>- 126\<close>) and overflow to an infinity. A finite \<^verbatim>\<open>float\<close> is the real number
  it stands for; the sign of a zero is not kept, and a zero divisor counts as \<open>+0.0\<close>,
  which is what the peak returned by \<^verbatim>\<open>processMeasurement\<close> is when it is zero.
\<close>

datatype fval = Finite real | PlusInf | MinusInf | NaN

definition round_half_even :: "real \<Rightarrow> int" where
  "round_half_even r =
     (if r - of_int \<lfloor>r\<rfloor> < 1 / 2 then \<lfloor>r\<rfloor>
      else if r - of_int \<lfloor>r\<rfloor> > 1 / 2 then \<lfloor>r\<rfloor> + 1
      else if even \<lfloor>r\<rfloor> then \<lfloor>r\<rfloor> else \<lfloor>r\<rfloor> + 1)"

definition float_ulp :: "real \<Rightarrow> real" where
  \<comment> \<open>the distance between neighbouring single-precision numbers around \<open>x \<noteq> 0\<close>\<close>
  "float_ulp x = 2 powr (of_int (max \<lfloor>log 2 \<bar>x\<bar>\<rfloor> (- 126)) - 23)"

definition float_round :: "real \<Rightarrow> fval" where
  "float_round x =
     (if x = 0 then Finite 0
      else
        let y = float_ulp x * of_int (round_half_even (x / float_ulp x))
        in if \<bar>y\<bar> \<ge> 2 ^ 128 then (if x > 0 then PlusInf else MinusInf) else Finite y)"

fun fmul :: "fval \<Rightarrow> fval \<Rightarrow> fval" where
  "fmul NaN b = NaN"
| "fmul a NaN = NaN"
| "fmul (Finite x) (Finite y) = float_round (x * y)"
| "fmul (Finite x) PlusInf = (if x = 0 then NaN else if x > 0 then PlusInf else MinusInf)"
| "fmul (Finite x) MinusInf = (if x = 0 then NaN else if x > 0 then MinusInf else PlusInf)"
| "fmul PlusInf (Finite y) = (if y = 0 then NaN else if y > 0 then PlusInf else MinusInf)"
| "fmul MinusInf (Finite y) = (if y = 0 then NaN else if y > 0 then MinusInf else PlusInf)"
| "fmul PlusInf PlusInf = PlusInf"
| "fmul PlusInf MinusInf = MinusInf"
| "fmul MinusInf PlusInf = MinusInf"
| "fmul MinusInf MinusInf = PlusInf"

fun fdiv :: "fval \<Rightarrow> fval \<Rightarrow> fval" where
  "fdiv NaN b = NaN"
| "fdiv a NaN = NaN"
| "fdiv (Finite x) (Finite y) =
     (if y = 0 then (if x = 0 then NaN else if x > 0 then PlusInf else MinusInf)
      else float_round (x / y))"
| "fdiv (Finite x) PlusInf = Finite 0"
| "fdiv (Finite x) MinusInf = Finite 0"
| "fdiv PlusInf (Finite y) = (if y < 0 then MinusInf else PlusInf)"
| "fdiv MinusInf (Finite y) = (if y < 0 then PlusInf else MinusInf)"
| "fdiv PlusInf PlusInf = NaN"
| "fdiv PlusInf MinusInf = NaN"
| "fdiv MinusInf PlusInf = NaN"
| "fdiv MinusInf MinusInf = NaN"



subsection \<open>The integration search of takeAutoMeasurement\<close>

text \<open>
  The value of the expression
  \<^verbatim>\<open>((satVoltage-maxMeasuredVoltage)*(INTEG_TICKS+READ_TICKS))/maxMeasuredVoltage\<close>:
  a subtraction of two floats, the conversion of the 32-bit sum to \<^verbatim>\<open>float\<close>, a
  multiplication and a division, each rounded.
\<close>

definition float_step :: "real \<Rightarrow> real \<Rightarrow> u32 \<Rightarrow> fval" where
  "float_step satVoltage maxMeasuredVoltage ticks =
     fdiv (fmul (float_round (satVoltage - maxMeasuredVoltage)) (float_round (real (unat ticks))))
          (Finite maxMeasuredVoltage)"





section \<open>Colorimetry: spectron\_cct.cpp\<close>

text \<open>
  Modelled from the spec: class \<^verbatim>\<open>SpectronDevice\<close> is declared in
  \<^verbatim>\<open>spectron_cct.h\<close>, which is not among the sources. The record keeps the four
  member functions that \<^verbatim>\<open>calculateColourParam\<close> calls, each as the value it
  returns: the measurement vector and the wavelength mapping of section 4.5.
\<close>

record SpectronDevice =
  isConnected :: bool
  totalPixels :: int
  getWavelength :: "int \<Rightarrow> real"
  getLastMeasurement :: "int \<Rightarrow> real"

definition LERP :: "real \<Rightarrow> real \<Rightarrow> real \<Rightarrow> real" where
  "LERP a b c = (b - a) * c + a"

record UVT =
  u :: real
  v :: real
  t :: real

definition DBL_MIN :: real where
  "DBL_MIN = 1 / 2 ^ 1022"

definition rt :: "real list" where
  \<comment> \<open>reciprocal temperature (K); \<^verbatim>\<open>10.0e-6\<close> is written \<open>10.0 / 10 ^ 6\<close>\<close>
  "rt = [DBL_MIN, 10.0 / 10 ^ 6, 20.0 / 10 ^ 6, 30.0 / 10 ^ 6, 40.0 / 10 ^ 6, 50.0 / 10 ^ 6,
         60.0 / 10 ^ 6, 70.0 / 10 ^ 6, 80.0 / 10 ^ 6, 90.0 / 10 ^ 6, 100.0 / 10 ^ 6, 125.0 / 10 ^ 6,
         150.0 / 10 ^ 6, 175.0 / 10 ^ 6, 200.0 / 10 ^ 6, 225.0 / 10 ^ 6, 250.0 / 10 ^ 6, 275.0 / 10 ^ 6,
         300.0 / 10 ^ 6, 325.0 / 10 ^ 6, 350.0 / 10 ^ 6, 375.0 / 10 ^ 6, 400.0 / 10 ^ 6, 425.0 / 10 ^ 6,
         450.0 / 10 ^ 6, 475.0 / 10 ^ 6, 500.0 / 10 ^ 6, 525.0 / 10 ^ 6, 550.0 / 10 ^ 6, 575.0 / 10 ^ 6,
         600.0 / 10 ^ 6]"

definition uvt :: "UVT list" where
  "uvt = map (\<lambda>(a, b, c). \<lparr>u = a, v = b, t = c\<rparr>)
     [(0.18006, 0.26352, -0.24341),
      (0.18066, 0.26589, -0.25479),
      (0.18133, 0.26846, -0.26876),
      (0.18208, 0.27119, -0.28539),
      (0.18293, 0.27407, -0.30470),
      (0.18388, 0.27709, -0.32675),
      (0.18494, 0.28021, -0.35156),
      (0.18611, 0.28342, -0.37915),
      (0.18740, 0.28668, -0.40955),
      (0.18880, 0.28997, -0.44278),
      (0.19032, 0.29326, -0.47888),
      (0.19462, 0.30141, -0.58204),
      (0.19962, 0.30921, -0.70471),
      (0.20525, 0.31647, -0.84901),
      (0.21142, 0.32312, -1.0182),
      (0.21807, 0.32909, -1.2168),
      (0.22511, 0.33439, -1.4512),
      (0.23247, 0.33904, -1.7298),
      (0.24010, 0.34308, -2.0637),
      (0.24792, 0.34655, -2.4681),
      (0.25591, 0.34951, -2.9641),
      (0.26400, 0.35200, -3.5814),
      (0.27218, 0.35407, -4.3633),
      (0.28039, 0.35577, -5.3762),
      (0.28863, 0.35714, -6.7262),
      (0.29685, 0.35823, -8.5955),
      (0.30505, 0.35907, -11.324),
      (0.31320, 0.35968, -15.628),
      (0.32129, 0.36011, -23.325),
      (0.32931, 0.36038, -40.770),
      (0.33724, 0.36051, -116.45)]"

text \<open>
  The scan of \<^verbatim>\<open>XYZtoCorColorTemp\<close> over the isotherm table: it stops at the first
  \<open>i > 0\<close> where the distance changes sign, and returns \<open>i\<close>, \<open>di\<close> and
  \<open>dm\<close> as the loop leaves them (\<open>i = 31\<close> when no sign changes). The source
  leaves \<open>di\<close> uninitialised before the loop and assigns it in the first pass; the
  scan is started with 0 for it.
\<close>

function cct_scan :: "real \<Rightarrow> real \<Rightarrow> nat \<Rightarrow> real \<Rightarrow> real \<Rightarrow> nat \<times> real \<times> real" where
  "cct_scan us vs i di dm =
     (if i < 31
      then
        let di = (vs - v (uvt ! i)) - t (uvt ! i) * (us - u (uvt ! i))
        in if i > 0 \<and> ((di < 0 \<and> dm \<ge> 0) \<or> (di \<ge> 0 \<and> dm < 0))
           then (i, di, dm)
           else cct_scan us vs (i + 1) di di
      else (i, di, dm))"
  by pat_completeness auto
termination
  by (relation "measure (\<lambda>(us, vs, i, di, dm). 31 - i)") auto

declare cct_scan.simps [simp del]

text \<open>
  Robertson's method. The divisions are those of the real numbers: where the source would
  divide by zero, the model's value is not the program's.
\<close>

definition XYZtoCorColorTemp :: "real \<times> real \<times> real \<Rightarrow> real" where
  "XYZtoCorColorTemp xyz =
     (case xyz of (X, Y, Z) \<Rightarrow>
        if X < 1.0 / 10 ^ 20 \<and> Y < 1.0 / 10 ^ 20 \<and> Z < 1.0 / 10 ^ 20 then 0
        else
          let us = (4.0 * X) / (X + 15.0 * Y + 3.0 * Z);
              vs = (6.0 * Y) / (X + 15.0 * Y + 3.0 * Z)
          in case cct_scan us vs 0 0 0 of (i, di, dm) \<Rightarrow>
               if i = 31 then 0
               else
                 let di = di / sqrt (1.0 + t (uvt ! i) * t (uvt ! i));
                     dm = dm / sqrt (1.0 + t (uvt ! (i - 1)) * t (uvt ! (i - 1)));
                     p = dm / (dm - di)
                 in 1.0 / LERP (rt ! (i - 1)) (rt ! i) p)"

definition xFunc_1931 :: "real \<Rightarrow> real" where
  "xFunc_1931 wavelength =
     (let t1 = (wavelength - 442.0) * (if wavelength < 442.0 then 0.0624 else 0.0374);
          t2 = (wavelength - 599.8) * (if wavelength < 599.8 then 0.0264 else 0.0323);
          t3 = (wavelength - 501.1) * (if wavelength < 501.1 then 0.0490 else 0.0382)
      in 0.362 * exp (- 0.5 * t1 * t1) + 1.056 * exp (- 0.5 * t2 * t2)
           - 0.065 * exp (- 0.5 * t3 * t3))"

definition yFunc_1931 :: "real \<Rightarrow> real" where
  "yFunc_1931 wavelength =
     (let t1 = (wavelength - 568.8) * (if wavelength < 568.8 then 0.0213 else 0.0247);
          t2 = (wavelength - 530.9) * (if wavelength < 530.9 then 0.0613 else 0.0322)
      in 0.821 * exp (- 0.5 * t1 * t1) + 0.286 * exp (- 0.5 * t2 * t2))"

definition zFunc_1931 :: "real \<Rightarrow> real" where
  "zFunc_1931 wavelength =
     (let t1 = (wavelength - 437.0) * (if wavelength < 437.0 then 0.0845 else 0.0278);
          t2 = (wavelength - 459.0) * (if wavelength < 459.0 then 0.0385 else 0.0725)
      in 1.217 * exp (- 0.5 * t1 * t1) + 0.681 * exp (- 0.5 * t2 * t2))"

text \<open>The loop of \<^verbatim>\<open>calculateColourParam\<close> that accumulates \<^verbatim>\<open>xyz[0..2]\<close>.\<close>

function accumulateXYZ :: "SpectronDevice \<Rightarrow> int \<Rightarrow> real \<times> real \<times> real \<Rightarrow> real \<times> real \<times> real" where
  "accumulateXYZ spectron i xyz =
     (if i < totalPixels spectron
      then
        let dLamda =
              (if i = 0
               then (getWavelength spectron (i + 1) - getWavelength spectron i) / 2
               else if i = totalPixels spectron - 1
               then (getWavelength spectron i - getWavelength spectron (i - 1)) / 2
               else (getWavelength spectron (i + 1) - getWavelength spectron (i - 1)) / 2);
            curWavelength = getWavelength spectron i
        in accumulateXYZ spectron (i + 1)
             (case xyz of (X, Y, Z) \<Rightarrow>
                (X + getLastMeasurement spectron i * xFunc_1931 curWavelength * dLamda,
                 Y + getLastMeasurement spectron i * yFunc_1931 curWavelength * dLamda,
                 Z + getLastMeasurement spectron i * zFunc_1931 curWavelength * dLamda))
      else xyz)"
  by pat_completeness auto
termination
  by (relation "measure (\<lambda>(spectron, i, xyz). nat (totalPixels spectron - i))") auto

declare accumulateXYZ.simps [simp del]

text \<open>
  \<^verbatim>\<open>calculateColourParam\<close> writes its results through the references
  \<^verbatim>\<open>CCT\<close>, \<^verbatim>\<open>x\<close> and \<^verbatim>\<open>y\<close>: the model takes their old values and
  returns the new ones.
\<close>

definition calculateColourParam :: "SpectronDevice \<Rightarrow> real \<times> real \<times> real \<Rightarrow> real \<times> real \<times> real" where
  "calculateColourParam spectron out =
     (case out of (CCT, x, y) \<Rightarrow>
        if \<not> isConnected spectron then (CCT, x, y)
        else
          case accumulateXYZ spectron 0 (0, 0, 0) of (X, Y, Z) \<Rightarrow>
            let sumXYZ = X + Y + Z;
                (x, y) = (if sumXYZ \<noteq> 0 then (X / sumXYZ, Y / sumXYZ) else (0, 0))
            in (XYZtoCorColorTemp (X, Y, Z), x, y))"

section \<open>A device at rest\<close>

text \<open>
  The state that the constructor and \<^verbatim>\<open>begin()\<close> leave when the configuration
  store is empty: no gain, the 5 V reference, relative measurements, 100 ms of
  integration, both saturation voltages at their minimum, all arrays zero. The external
  trigger is wired to line 3 and the light trigger to line 4. The concrete instances
  below start from it.
\<close>

definition example_device :: device where
  "example_device =
     \<lparr>INTEG_TICKS = 17942, LEAD_TICKS = 64, specRead = initSpecTimerData,
      measuringData_m = False, timerOn = False, specState = SPEC_STOP,
      specDataReady = False, specCLK = 0, specST = 0, specCounter = 0, extTRGCounter = 0,
      specData = None, specDataCounter = None,
      adcPinCNV = 12, specPinCLK = 10, specPinST = 11, extPinTRG = NO_PIN, extPinLIGHT = NO_PIN,
      data = replicate SPEC_PIXELS 0, dataCounts = replicate SPEC_PIXELS 0,
      pin_level = (\<lambda>pin. False), trg_pending = False, eeprom = Map.empty,
      ext_trg_m = 3, ext_trg_ls_m = 4, adc_cnv_m = 12,
      gain_m = NO_GAIN, adcRef_m = ADC_5V, measurementType_m = MEASURE_RELATIVE,
      satVoltageHighGain_m = 2.3, satVoltageNoGain_m = 1.4, extTrgMeasDelayUs_m = 0,
      data_m = replicate SPEC_PIXELS 0, blackLevels_m = replicate SPEC_PIXELS 0,
      applyBandPassCorrection_m = True\<rparr>"

section \<open>Progress of the timing state machine\<close>

text \<open>
  Two measures of how far an acquisition is from \<^verbatim>\<open>SPEC_STOP\<close>: the number of
  states still ahead, and the number of timer interrupts, after the next one, that the
  current state still takes. The counter is compared for equality with its target after
  the increment, so the distance is taken in 32-bit arithmetic.
\<close>

fun phase_rank :: "spec_state_t \<Rightarrow> nat" where
  "phase_rank SPEC_LEAD = 6"
| "phase_rank SPEC_RESET = 5"
| "phase_rank SPEC_RESET2 = 4"
| "phase_rank SPEC_INTEGRATION = 3"
| "phase_rank SPEC_READ = 2"
| "phase_rank SPEC_TRAIL = 1"
| "phase_rank SPEC_STOP = 0"

definition phase_target :: "device \<Rightarrow> u32" where
  "phase_target s =
     (case specState s of
        SPEC_LEAD \<Rightarrow> LEAD_TICKS s
      | SPEC_RESET \<Rightarrow> of_nat READ_TICKS
      | SPEC_RESET2 \<Rightarrow> of_nat READ_TICKS
      | SPEC_INTEGRATION \<Rightarrow> INTEG_TICKS s
      | SPEC_READ \<Rightarrow> of_nat READ_TICKS
      | SPEC_TRAIL \<Rightarrow> of_nat TRAIL_TICKS
      | SPEC_STOP \<Rightarrow> 0)"

definition ticks_to_go :: "device \<Rightarrow> nat" where
  "ticks_to_go s = unat (phase_target s - specCounter s - 1)"

definition next_state :: "spec_state_t \<Rightarrow> spec_state_t" where
  "next_state st =
     (case st of
        SPEC_LEAD \<Rightarrow> SPEC_RESET
      | SPEC_RESET \<Rightarrow> SPEC_RESET2
      | SPEC_RESET2 \<Rightarrow> SPEC_INTEGRATION
      | SPEC_INTEGRATION \<Rightarrow> SPEC_READ
      | SPEC_READ \<Rightarrow> SPEC_TRAIL
      | SPEC_TRAIL \<Rightarrow> SPEC_STOP
      | SPEC_STOP \<Rightarrow> SPEC_STOP)"

section \<open>A faint source\<close>

text \<open>
  A connected device with a single pixel at 437 nm, the next wavelength 2 nm further, and
  a measurement of \<open>1 / 10 ^ 30\<close>.
\<close>

definition faint_device :: SpectronDevice where
  "faint_device =
     \<lparr>isConnected = True, totalPixels = 1,
      getWavelength = (\<lambda>i. 437 + 2 * real_of_int i),
      getLastMeasurement = (\<lambda>i. 1 / 10 ^ 30)\<rparr>"

section \<open>Constants and output lines\<close>

lemma READ_TICKS_eq: "READ_TICKS = 2060"
  by (simp add: READ_TICKS_def SPEC_PIXELS_def TICKS_PER_PIXEL_def TRAIL_TICKS_def)

lemma EXT_TRG_HIGH_TICKS_eq: "EXT_TRG_HIGH_TICKS = 200"
  by (simp add: EXT_TRG_HIGH_TICKS_def uSecToTicks_def TIMER_US_FACTOR_def SPEC_CLK_TICK_TIMER_def)

lemma pinSetFast_sel [simp]:
  "INTEG_TICKS (pinSetFast p s) = INTEG_TICKS s"
  "LEAD_TICKS (pinSetFast p s) = LEAD_TICKS s"
  "specRead (pinSetFast p s) = specRead s"
  "timerOn (pinSetFast p s) = timerOn s"
  "specState (pinSetFast p s) = specState s"
  "specCounter (pinSetFast p s) = specCounter s"
  "extTRGCounter (pinSetFast p s) = extTRGCounter s"
  "extPinTRG (pinSetFast p s) = extPinTRG s"
  "extPinLIGHT (pinSetFast p s) = extPinLIGHT s"
  "specPinCLK (pinSetFast p s) = specPinCLK s"
  "specPinST (pinSetFast p s) = specPinST s"
  "pin_level (pinSetFast p s) = (pin_level s)(p := True)"
  by (simp_all add: pinSetFast_def)

lemma pinResetFast_sel [simp]:
  "INTEG_TICKS (pinResetFast p s) = INTEG_TICKS s"
  "LEAD_TICKS (pinResetFast p s) = LEAD_TICKS s"
  "specRead (pinResetFast p s) = specRead s"
  "timerOn (pinResetFast p s) = timerOn s"
  "specState (pinResetFast p s) = specState s"
  "specCounter (pinResetFast p s) = specCounter s"
  "extTRGCounter (pinResetFast p s) = extTRGCounter s"
  "extPinTRG (pinResetFast p s) = extPinTRG s"
  "extPinLIGHT (pinResetFast p s) = extPinLIGHT s"
  "specPinCLK (pinResetFast p s) = specPinCLK s"
  "specPinST (pinResetFast p s) = specPinST s"
  "pin_level (pinResetFast p s) = (pin_level s)(p := False)"
  by (simp_all add: pinResetFast_def)

lemma unsigned_real_nonneg: "0 \<le> (unsigned w :: real)"
  by (metis of_nat_0_le_iff of_nat_unat)

section \<open>One timer interrupt\<close>

lemma pinSetVal_sel [simp]:
  "INTEG_TICKS (pinSetVal p x s) = INTEG_TICKS s"
  "LEAD_TICKS (pinSetVal p x s) = LEAD_TICKS s"
  "specRead (pinSetVal p x s) = specRead s"
  "timerOn (pinSetVal p x s) = timerOn s"
  "specState (pinSetVal p x s) = specState s"
  "specCounter (pinSetVal p x s) = specCounter s"
  "extTRGCounter (pinSetVal p x s) = extTRGCounter s"
  "extPinTRG (pinSetVal p x s) = extPinTRG s"
  "extPinLIGHT (pinSetVal p x s) = extPinLIGHT s"
  "specPinCLK (pinSetVal p x s) = specPinCLK s"
  "specPinST (pinSetVal p x s) = specPinST s"
  "pin_level (pinSetVal p x s) = (pin_level s)(p := (x \<noteq> 0))"
  by (simp_all add: pinSetVal_def)

text \<open>
  What each case of the \<^verbatim>\<open>switch\<close> does to the state and its counter: the state
  moves on when the incremented counter meets the target, and the counter restarts.
\<close>

lemma tick_LEAD_sel:
  "INTEG_TICKS (tick_LEAD s) = INTEG_TICKS s"
  "LEAD_TICKS (tick_LEAD s) = LEAD_TICKS s"
  "timerOn (tick_LEAD s) = timerOn s"
  "specState (tick_LEAD s) =
     (if specCounter s + 1 = LEAD_TICKS s then SPEC_RESET else specState s)"
  "specCounter (tick_LEAD s) = (if specCounter s + 1 = LEAD_TICKS s then 0 else specCounter s + 1)"
  by (simp_all add: tick_LEAD_def Let_def)

lemma tick_RESET_sel:
  "INTEG_TICKS (tick_RESET s) = INTEG_TICKS s"
  "LEAD_TICKS (tick_RESET s) = LEAD_TICKS s"
  "timerOn (tick_RESET s) = timerOn s"
  "specState (tick_RESET s) =
     (if specCounter s + 1 = of_nat READ_TICKS then SPEC_RESET2 else specState s)"
  "specCounter (tick_RESET s) =
     (if specCounter s + 1 = of_nat READ_TICKS then 0 else specCounter s + 1)"
  "pin_level (tick_RESET s) = pin_level s"
  "extPinLIGHT (tick_RESET s) = extPinLIGHT s"
  "extPinTRG (tick_RESET s) = extPinTRG s"
  "extTRGCounter (tick_RESET s) = extTRGCounter s"
  by (simp_all add: tick_RESET_def Let_def)

lemma tick_RESET2_sel:
  "INTEG_TICKS (tick_RESET2 s) = INTEG_TICKS s"
  "LEAD_TICKS (tick_RESET2 s) = LEAD_TICKS s"
  "timerOn (tick_RESET2 s) = timerOn s"
  "specState (tick_RESET2 s) =
     (if specCounter s + 1 = of_nat READ_TICKS then SPEC_INTEGRATION else specState s)"
  "specCounter (tick_RESET2 s) =
     (if specCounter s + 1 = of_nat READ_TICKS then 0 else specCounter s + 1)"
  "pin_level (tick_RESET2 s) =
     (if specCounter s + 1 = of_nat READ_TICKS \<and> extPinLIGHT s \<noteq> NO_PIN
      then (pin_level s)(extPinLIGHT s := True) else pin_level s)"
  "extPinLIGHT (tick_RESET2 s) = extPinLIGHT s"
  "extPinTRG (tick_RESET2 s) = extPinTRG s"
  "extTRGCounter (tick_RESET2 s) = extTRGCounter s"
  by (simp_all add: tick_RESET2_def Let_def)

lemma tick_INTEGRATION_sel:
  "INTEG_TICKS (tick_INTEGRATION s) = INTEG_TICKS s"
  "LEAD_TICKS (tick_INTEGRATION s) = LEAD_TICKS s"
  "timerOn (tick_INTEGRATION s) = timerOn s"
  "specState (tick_INTEGRATION s) =
     (if specCounter s + 1 = INTEG_TICKS s then SPEC_READ else specState s)"
  "specCounter (tick_INTEGRATION s) =
     (if specCounter s + 1 = INTEG_TICKS s then 0 else specCounter s + 1)"
  by (simp_all add: tick_INTEGRATION_def Let_def)

lemma tick_READ_sel:
  "INTEG_TICKS (tick_READ s) = INTEG_TICKS s"
  "LEAD_TICKS (tick_READ s) = LEAD_TICKS s"
  "timerOn (tick_READ s) = timerOn s"
  "specState (tick_READ s) =
     (if specCounter s + 1 = of_nat READ_TICKS then SPEC_TRAIL else specState s)"
  "specCounter (tick_READ s) =
     (if specCounter s + 1 = of_nat READ_TICKS then 0 else specCounter s + 1)"
  by (simp_all add: tick_READ_def Let_def)

lemma tick_TRAIL_sel:
  "INTEG_TICKS (tick_TRAIL s) = INTEG_TICKS s"
  "LEAD_TICKS (tick_TRAIL s) = LEAD_TICKS s"
  "timerOn (tick_TRAIL s) = timerOn s"
  "specState (tick_TRAIL s) =
     (if specCounter s + 1 = of_nat TRAIL_TICKS then SPEC_STOP else specState s)"
  "specCounter (tick_TRAIL s) =
     (if specCounter s + 1 = of_nat TRAIL_TICKS then 0 else specCounter s + 1)"
  by (simp_all add: tick_TRAIL_def Let_def)

lemma process_trigger_sel:
  "INTEG_TICKS (process_trigger s) = INTEG_TICKS s"
  "LEAD_TICKS (process_trigger s) = LEAD_TICKS s"
  "timerOn (process_trigger s) = timerOn s"
  "specState (process_trigger s) = specState s"
  "specCounter (process_trigger s) = specCounter s"
  "extPinLIGHT (process_trigger s) = extPinLIGHT s"
  "pin_level (process_trigger s) =
     (if extTRGCounter s \<noteq> 0 \<and> extTRGCounter s - 1 = EXT_TRG_HIGH_TICKS
      then (pin_level s)(extPinTRG s := True)
      else if extTRGCounter s = 1 then (pin_level s)(extPinTRG s := False)
      else pin_level s)"
  by (auto simp: process_trigger_def Let_def EXT_TRG_HIGH_TICKS_eq)

text \<open>
  The whole handler with the timer on: in every state but \<^verbatim>\<open>SPEC_STOP\<close> the
  counter is incremented and compared with the target of the state; the three tick counts
  and the timer flag stay.
\<close>

lemma spectroClockInterrupt_frame:
  "INTEG_TICKS (spectroClockInterrupt s) = INTEG_TICKS s"
  "LEAD_TICKS (spectroClockInterrupt s) = LEAD_TICKS s"
  "timerOn (spectroClockInterrupt s) = timerOn s"
  by (cases "specState s";
      simp add: spectroClockInterrupt_def Let_def process_trigger_sel tick_LEAD_sel tick_RESET_sel
        tick_RESET2_sel tick_INTEGRATION_sel tick_READ_sel tick_TRAIL_sel tick_STOP_def)+

lemma spectroClockInterrupt_state:
  assumes "timerOn s" and "specState s \<noteq> SPEC_STOP"
  shows "specState (spectroClockInterrupt s) =
           (if specCounter s + 1 = phase_target s then next_state (specState s) else specState s)"
    and "specCounter (spectroClockInterrupt s) =
           (if specCounter s + 1 = phase_target s then 0 else specCounter s + 1)"
  using assms
  by (cases "specState s";
      simp add: spectroClockInterrupt_def Let_def process_trigger_sel tick_LEAD_sel tick_RESET_sel
        tick_RESET2_sel tick_INTEGRATION_sel tick_READ_sel tick_TRAIL_sel phase_target_def
        next_state_def)+

section \<open>Measurement processing (C1)\<close>

lemma measureValue_nonneg:
  "0 \<le> vref \<Longrightarrow> 0 \<le> vsat \<Longrightarrow> 0 \<le> measureValue ty vref vsat d c"
  by (auto simp: measureValue_def unsigned_real_nonneg
      intro!: divide_nonneg_nonneg mult_nonneg_nonneg)

text \<open>
  The loop from index \<open>i\<close> on: the array keeps its length, every pixel from \<open>i\<close>
  gets its value, the pixels below \<open>i\<close> keep theirs, and the running maximum ends as
  the largest of its start value and the values written.
\<close>

lemma processMeasurement_loop_spec:
  assumes "SPEC_PIXELS \<le> length m" and "i \<le> SPEC_PIXELS"
  shows "length (snd (processMeasurement_loop s ty vref vsat i m mx)) = length m \<and>
         (\<forall>j < length m.
            snd (processMeasurement_loop s ty vref vsat i m mx) ! j =
              (if i \<le> j \<and> j < SPEC_PIXELS
               then measureValue ty vref vsat (data s ! j) (dataCounts s ! j) else m ! j)) \<and>
         fst (processMeasurement_loop s ty vref vsat i m mx) =
           Max (insert mx ((\<lambda>j. measureValue ty vref vsat (data s ! j) (dataCounts s ! j))
                             ` {i..<SPEC_PIXELS}))"
  using assms
proof (induction s ty vref vsat i m mx rule: processMeasurement_loop.induct)
  case (1 s ty vref vsat i m mx)
  let ?f = "\<lambda>j. measureValue ty vref vsat (data s ! j) (dataCounts s ! j)"
  show ?case
  proof (cases "i < SPEC_PIXELS")
    case False
    with 1(3) have "i = SPEC_PIXELS" by simp
    then show ?thesis
      by (subst (1 2 3) processMeasurement_loop.simps) auto
  next
    case True
    let ?m = "m[i := ?f i]"
    let ?mx = "if ?m ! i > mx then ?m ! i else mx"
    have step: "processMeasurement_loop s ty vref vsat i m mx =
                processMeasurement_loop s ty vref vsat (i + 1) ?m ?mx"
      using True by (subst processMeasurement_loop.simps) (simp add: Let_def)
    have ih: "length (snd (processMeasurement_loop s ty vref vsat (i + 1) ?m ?mx)) = length ?m \<and>
         (\<forall>j < length ?m.
            snd (processMeasurement_loop s ty vref vsat (i + 1) ?m ?mx) ! j =
              (if i + 1 \<le> j \<and> j < SPEC_PIXELS then ?f j else ?m ! j)) \<and>
         fst (processMeasurement_loop s ty vref vsat (i + 1) ?m ?mx) =
           Max (insert ?mx (?f ` {i + 1..<SPEC_PIXELS}))"
      using "1.IH" [OF True refl refl] "1.prems" True by simp
    have mi: "?m ! i = ?f i" using True "1.prems" by simp
    have set_eq: "{i..<SPEC_PIXELS} = insert i {i + 1..<SPEC_PIXELS}"
      using True by auto
    have "Max (insert ?mx (?f ` {i + 1..<SPEC_PIXELS})) = Max (insert mx (?f ` {i..<SPEC_PIXELS}))"
    proof -
      have "Max (insert mx (?f ` {i..<SPEC_PIXELS})) =
            Max (insert mx (insert (?f i) (?f ` {i + 1..<SPEC_PIXELS})))"
        by (subst set_eq) simp
      also have "\<dots> = Max (insert (max mx (?f i)) (?f ` {i + 1..<SPEC_PIXELS}))"
      proof (cases "?f ` {i + 1..<SPEC_PIXELS} = {}")
        case True
        then show ?thesis by simp
      next
        case False
        then show ?thesis by (simp add: max.assoc)
      qed
      also have "max mx (?f i) = ?mx" unfolding mi by (simp add: max_def)
      finally show ?thesis by simp
    qed
    moreover have "(if i + 1 \<le> j \<and> j < SPEC_PIXELS then ?f j else ?m ! j) =
                   (if i \<le> j \<and> j < SPEC_PIXELS then ?f j else m ! j)" if "j < length m" for j
      using that True by (cases "j = i") auto
    ultimately show ?thesis
      unfolding step using ih by simp
  qed
qed

text \<open>
  Claim C1. For every pixel \<open>i\<close>, \<^verbatim>\<open>processMeasurement\<close> stores 0 when
  \<^verbatim>\<open>dataCounts[i]\<close> is 0 and otherwise \<open>S / (C * 65535)\<close> for a relative,
  \<open>S * Vref / (C * 65535)\<close> for a voltage and \<open>S * Vref / (C * 65535 * Vsat)\<close> for an
  absolute measurement, with \<open>S = data[i]\<close>, \<open>C = dataCounts[i]\<close>, \<open>Vref\<close> the
  voltage of the configured reference and \<open>Vsat\<close> the saturation voltage of the gain
  that is set; it returns the maximum of the values stored. The arrays have
  \<^verbatim>\<open>SPEC_PIXELS\<close> elements, and the saturation voltages are positive, as the
  constructor and \<^verbatim>\<open>setSaturationVoltages\<close> keep them.
\<close>

theorem processMeasurement_values_and_max:
  assumes "length measurement = SPEC_PIXELS"
    and "length (data s) = SPEC_PIXELS" and "length (dataCounts s) = SPEC_PIXELS"
    and "0 < satVoltageHighGain_m s" and "0 < satVoltageNoGain_m s"
    and "i < SPEC_PIXELS"
  shows "snd (processMeasurement s measurement ty) ! i =
           (if dataCounts s ! i = 0 then 0
            else case ty of
              MEASURE_RELATIVE \<Rightarrow>
                real (unat (data s ! i)) / (real (unat (dataCounts s ! i)) * 65535)
            | MEASURE_VOLTAGE \<Rightarrow>
                real (unat (data s ! i)) * adcVoltages (adcRef_m s)
                  / (real (unat (dataCounts s ! i)) * 65535)
            | MEASURE_ABSOLUTE \<Rightarrow>
                real (unat (data s ! i)) * adcVoltages (adcRef_m s)
                  / (real (unat (dataCounts s ! i)) * 65535
                       * (if gain_m s = HIGH_GAIN then satVoltageHighGain_m s
                          else satVoltageNoGain_m s))) \<and>
         fst (processMeasurement s measurement ty) = Max (set (snd (processMeasurement s measurement ty)))"
proof -
  define vref where "vref = adcVoltages (adcRef_m s)"
  define vsat where "vsat = (if gain_m s = HIGH_GAIN then satVoltageHighGain_m s
                             else satVoltageNoGain_m s)"
  let ?f = "\<lambda>j. measureValue ty vref vsat (data s ! j) (dataCounts s ! j)"
  let ?r = "processMeasurement_loop s ty vref vsat 0 measurement 0"
  have pm: "processMeasurement s measurement ty = ?r"
    by (simp add: processMeasurement_def vref_def vsat_def)
  have vref: "0 \<le> vref" unfolding vref_def by (cases "adcRef_m s") simp_all
  have vsat: "0 \<le> vsat" using assms(4,5) by (simp add: vsat_def)
  have spec: "length (snd ?r) = SPEC_PIXELS"
    "\<And>j. j < SPEC_PIXELS \<Longrightarrow> snd ?r ! j = ?f j"
    "fst ?r = Max (insert 0 (?f ` {0..<SPEC_PIXELS}))"
    using processMeasurement_loop_spec [of measurement 0 s ty vref vsat 0] assms(1) by simp_all
  have pos: "0 < SPEC_PIXELS" by (simp add: SPEC_PIXELS_def)
  have set_r: "set (snd ?r) = ?f ` {0..<SPEC_PIXELS}"
  proof -
    have "snd ?r = map ?f [0..<SPEC_PIXELS]"
      by (rule nth_equalityI) (simp_all add: spec)
    then show ?thesis by simp
  qed
  have ne: "?f ` {0..<SPEC_PIXELS} \<noteq> {}" using pos by auto
  have "Max (insert 0 (?f ` {0..<SPEC_PIXELS})) = Max (?f ` {0..<SPEC_PIXELS})"
  proof -
    have "0 \<le> Max (?f ` {0..<SPEC_PIXELS})"
    proof -
      have "?f 0 \<in> ?f ` {0..<SPEC_PIXELS}" using pos by auto
      then have "?f 0 \<le> Max (?f ` {0..<SPEC_PIXELS})" by (intro Max_ge) auto
      with measureValue_nonneg [OF vref vsat, of ty "data s ! 0" "dataCounts s ! 0"]
      show ?thesis by linarith
    qed
    then show ?thesis using ne by (simp add: max_def)
  qed
  then have mx: "fst ?r = Max (set (snd ?r))" by (simp add: spec(3) set_r)
  have val: "snd ?r ! i = ?f i" using spec(2) assms(6) by simp
  have form: "?f i =
           (if dataCounts s ! i = 0 then 0
            else case ty of
              MEASURE_RELATIVE \<Rightarrow>
                real (unat (data s ! i)) / (real (unat (dataCounts s ! i)) * 65535)
            | MEASURE_VOLTAGE \<Rightarrow>
                real (unat (data s ! i)) * vref / (real (unat (dataCounts s ! i)) * 65535)
            | MEASURE_ABSOLUTE \<Rightarrow>
                real (unat (data s ! i)) * vref / (real (unat (dataCounts s ! i)) * 65535 * vsat))"
    by (cases ty) (simp_all add: measureValue_def ADC_MAX_VALUE_def mult_ac)
  from val form have "snd ?r ! i =
           (if dataCounts s ! i = 0 then 0
            else case ty of
              MEASURE_RELATIVE \<Rightarrow>
                real (unat (data s ! i)) / (real (unat (dataCounts s ! i)) * 65535)
            | MEASURE_VOLTAGE \<Rightarrow>
                real (unat (data s ! i)) * vref / (real (unat (dataCounts s ! i)) * 65535)
            | MEASURE_ABSOLUTE \<Rightarrow>
                real (unat (data s ! i)) * vref / (real (unat (dataCounts s ! i)) * 65535 * vsat))"
    by (rule trans)
  then show ?thesis
    unfolding pm using mx unfolding vref_def vsat_def by (rule conjI)
qed

text \<open>
  An instance: pixel 5 has the sum 1000 from two samples, the reference is 5 V, and a
  voltage measurement stores \<open>1000 * 5 / (2 * 65535)\<close> there.
\<close>

theorem processMeasurement_values_and_max_witness:
  "length (replicate SPEC_PIXELS (0::real)) = SPEC_PIXELS \<and>
   length (data (example_device\<lparr>data := (replicate SPEC_PIXELS 0)[5 := 1000],
                                 dataCounts := (replicate SPEC_PIXELS 0)[5 := 2]\<rparr>)) = SPEC_PIXELS \<and>
   length (dataCounts (example_device\<lparr>data := (replicate SPEC_PIXELS 0)[5 := 1000],
                                 dataCounts := (replicate SPEC_PIXELS 0)[5 := 2]\<rparr>)) = SPEC_PIXELS \<and>
   0 < satVoltageHighGain_m (example_device\<lparr>data := (replicate SPEC_PIXELS 0)[5 := 1000],
                                 dataCounts := (replicate SPEC_PIXELS 0)[5 := 2]\<rparr>) \<and>
   0 < satVoltageNoGain_m (example_device\<lparr>data := (replicate SPEC_PIXELS 0)[5 := 1000],
                                 dataCounts := (replicate SPEC_PIXELS 0)[5 := 2]\<rparr>) \<and>
   (5::nat) < SPEC_PIXELS \<and>
   snd (processMeasurement
          (example_device\<lparr>data := (replicate SPEC_PIXELS 0)[5 := 1000],
                           dataCounts := (replicate SPEC_PIXELS 0)[5 := 2]\<rparr>)
          (replicate SPEC_PIXELS 0) MEASURE_VOLTAGE) ! 5 = 5000 / 131070 \<and>
   fst (processMeasurement
          (example_device\<lparr>data := (replicate SPEC_PIXELS 0)[5 := 1000],
                           dataCounts := (replicate SPEC_PIXELS 0)[5 := 2]\<rparr>)
          (replicate SPEC_PIXELS 0) MEASURE_VOLTAGE) =
     Max (set (snd (processMeasurement
          (example_device\<lparr>data := (replicate SPEC_PIXELS 0)[5 := 1000],
                           dataCounts := (replicate SPEC_PIXELS 0)[5 := 2]\<rparr>)
          (replicate SPEC_PIXELS 0) MEASURE_VOLTAGE)))"
  using processMeasurement_values_and_max
    [of "replicate SPEC_PIXELS 0"
        "example_device\<lparr>data := (replicate SPEC_PIXELS 0)[5 := 1000],
                         dataCounts := (replicate SPEC_PIXELS 0)[5 := 2]\<rparr>"
        5 MEASURE_VOLTAGE]
  by (simp add: example_device_def SPEC_PIXELS_def)

section \<open>The waveform table (C2)\<close>

lemma length_fill_ST: "length (fill_ST n i xs) = length xs"
  by (induction n i xs rule: fill_ST.induct) (subst fill_ST.simps, simp)

lemma nth_fill_ST:
  "n \<le> length xs \<Longrightarrow> j < length xs \<Longrightarrow>
   fill_ST n i xs ! j = (if i \<le> j \<and> j < n then ST_BIT else xs ! j)"
proof (induction n i xs rule: fill_ST.induct)
  case (1 n i xs)
  show ?case
  proof (cases "i < n")
    case True
    with 1 show ?thesis
      by (subst fill_ST.simps) (auto simp: nth_list_update)
  next
    case False
    then show ?thesis by (subst fill_ST.simps) auto
  qed
qed

lemma length_fill_READY: "length (fill_READY n i xs) = length xs"
  by (induction n i xs rule: fill_READY.induct) (subst fill_READY.simps, simp)

lemma nth_fill_READY:
  "n \<le> length xs \<Longrightarrow> j < length xs \<Longrightarrow>
   fill_READY n i xs ! j =
     (if i \<le> j \<and> j < n \<and> (j - i) mod TICKS_PER_PIXEL = 0 then xs ! j OR READY_BIT else xs ! j)"
proof (induction n i xs rule: fill_READY.induct)
  case (1 n i xs)
  show ?case
  proof (cases "i < n")
    case True
    have step: "fill_READY n i xs = fill_READY n (i + TICKS_PER_PIXEL) (xs[i := xs ! i OR READY_BIT])"
      using True by (subst fill_READY.simps) simp
    have ih: "fill_READY n (i + TICKS_PER_PIXEL) (xs[i := xs ! i OR READY_BIT]) ! j =
       (if i + TICKS_PER_PIXEL \<le> j \<and> j < n \<and> (j - (i + TICKS_PER_PIXEL)) mod TICKS_PER_PIXEL = 0
        then xs[i := xs ! i OR READY_BIT] ! j OR READY_BIT else xs[i := xs ! i OR READY_BIT] ! j)"
      using 1 True by simp
    show ?thesis
    proof (cases "j = i")
      case True
      with \<open>i < n\<close> 1(3) show ?thesis unfolding step ih by (simp add: TICKS_PER_PIXEL_def)
    next
      case False
      have "(i \<le> j \<and> (j - i) mod TICKS_PER_PIXEL = 0) =
            (i + TICKS_PER_PIXEL \<le> j \<and> (j - (i + TICKS_PER_PIXEL)) mod TICKS_PER_PIXEL = 0)"
        using False unfolding TICKS_PER_PIXEL_def by presburger
      then show ?thesis unfolding step ih using False by auto
    qed
  next
    case False
    then show ?thesis by (subst fill_READY.simps) auto
  qed
qed

lemma length_initSpecTimerData: "length initSpecTimerData = READ_TICKS"
  by (simp add: initSpecTimerData_def Let_def length_fill_READY length_fill_ST)

lemma nth_initSpecTimerData:
  assumes "j < READ_TICKS"
  shows "initSpecTimerData ! j =
     (if j < 2 then 0 else ST_BIT) OR
     (if 7 \<le> j \<and> j < SPEC_PIXELS * TICKS_PER_PIXEL + 1 \<and> (j - 7) mod TICKS_PER_PIXEL = 0
      then READY_BIT else 0)"
proof -
  have R: "2 \<le> READ_TICKS" "SPEC_PIXELS * TICKS_PER_PIXEL + 1 \<le> READ_TICKS"
    by (simp_all add: READ_TICKS_def TRAIL_TICKS_def)
  have clr: "ST_BIT AND NOT ST_BIT = 0" by (simp add: ST_BIT_def)
  show ?thesis
    using assms R
    by (auto simp: initSpecTimerData_def Let_def nth_fill_READY length_fill_ST nth_fill_ST
        nth_list_update clr)
qed

lemma ready_initSpecTimerData:
  assumes "j < READ_TICKS"
  shows "(initSpecTimerData ! j AND READY_BIT \<noteq> 0) =
         (7 \<le> j \<and> j < SPEC_PIXELS * TICKS_PER_PIXEL + 1 \<and> (j - 7) mod TICKS_PER_PIXEL = 0)"
  by (simp add: nth_initSpecTimerData [OF assms] ST_BIT_def READY_BIT_def)

lemma set_ready_indices:
  "set (ready_indices initSpecTimerData) = (\<lambda>k. 7 + k * TICKS_PER_PIXEL) ` {0..<SPEC_PIXELS}"
proof -
  have R: "SPEC_PIXELS * TICKS_PER_PIXEL + 1 \<le> READ_TICKS"
    by (simp add: READ_TICKS_def TRAIL_TICKS_def)
  have "set (ready_indices initSpecTimerData) =
        {j. 7 \<le> j \<and> j < SPEC_PIXELS * TICKS_PER_PIXEL + 1 \<and> (j - 7) mod TICKS_PER_PIXEL = 0}"
  proof -
    have "j < READ_TICKS \<and> initSpecTimerData ! j AND READY_BIT \<noteq> 0 \<longleftrightarrow>
          7 \<le> j \<and> j < SPEC_PIXELS * TICKS_PER_PIXEL + 1 \<and> (j - 7) mod TICKS_PER_PIXEL = 0" for j
      using R ready_initSpecTimerData [of j] by (cases "j < READ_TICKS") auto
    then show ?thesis
      by (auto simp: ready_indices_def length_initSpecTimerData)
  qed
  also have "\<dots> = (\<lambda>k. 7 + k * TICKS_PER_PIXEL) ` {0..<SPEC_PIXELS}"
  proof (intro set_eqI iffI)
    fix j assume "j \<in> {j. 7 \<le> j \<and> j < SPEC_PIXELS * TICKS_PER_PIXEL + 1 \<and> (j - 7) mod TICKS_PER_PIXEL = 0}"
    then have j: "7 \<le> j" "j < SPEC_PIXELS * 8 + 1" "(j - 7) mod 8 = 0"
      by (simp_all add: TICKS_PER_PIXEL_def)
    then have "j = 7 + ((j - 7) div 8) * 8" "(j - 7) div 8 < SPEC_PIXELS"
      by presburger+
    then show "j \<in> (\<lambda>k. 7 + k * TICKS_PER_PIXEL) ` {0..<SPEC_PIXELS}"
      unfolding TICKS_PER_PIXEL_def by (intro image_eqI[where x="(j - 7) div 8"]) auto
  next
    fix j assume "j \<in> (\<lambda>k. 7 + k * TICKS_PER_PIXEL) ` {0..<SPEC_PIXELS}"
    then show "j \<in> {j. 7 \<le> j \<and> j < SPEC_PIXELS * TICKS_PER_PIXEL + 1 \<and> (j - 7) mod TICKS_PER_PIXEL = 0}"
      by (auto simp: TICKS_PER_PIXEL_def)
  qed
  finally show ?thesis .
qed

lemma ready_indices_initSpecTimerData:
  "ready_indices initSpecTimerData = map (\<lambda>k. 7 + k * TICKS_PER_PIXEL) [0..<SPEC_PIXELS]"
proof (rule sorted_distinct_set_unique)
  show "sorted (ready_indices initSpecTimerData)"
    unfolding ready_indices_def by (rule sorted_wrt_filter) simp
  show "distinct (ready_indices initSpecTimerData)"
    by (simp add: ready_indices_def)
  show "sorted (map (\<lambda>k. 7 + k * TICKS_PER_PIXEL) [0..<SPEC_PIXELS])"
    by (rule sorted_map_mono) (auto simp: mono_on_def) 
  show "distinct (map (\<lambda>k. 7 + k * TICKS_PER_PIXEL) [0..<SPEC_PIXELS])"
    by (simp add: distinct_map inj_on_def TICKS_PER_PIXEL_def)
  show "set (ready_indices initSpecTimerData) = set (map (\<lambda>k. 7 + k * TICKS_PER_PIXEL) [0..<SPEC_PIXELS])"
    by (simp add: set_ready_indices)
qed

text \<open>
  Claim C2. After \<^verbatim>\<open>initSpecTimerData\<close> the table \<^verbatim>\<open>specRead\<close> has
  \<open>SPEC_PIXELS * TICKS_PER_PIXEL + TRAIL_TICKS\<close> entries; the indices of the entries
  with the ready bit set are, in increasing order, \<open>7, 7 + 8, 7 + 2 * 8, \<dots>\<close>, one for
  each pixel, so there are exactly \<open>SPEC_PIXELS\<close> of them and neighbours are
  \<open>TICKS_PER_PIXEL\<close> apart; the first two entries have the ST bit cleared.
\<close>

theorem waveform_table_shape:
  "length initSpecTimerData = SPEC_PIXELS * TICKS_PER_PIXEL + TRAIL_TICKS \<and>
   ready_indices initSpecTimerData = map (\<lambda>k. 7 + k * TICKS_PER_PIXEL) [0..<SPEC_PIXELS] \<and>
   length (ready_indices initSpecTimerData) = SPEC_PIXELS \<and>
   initSpecTimerData ! 0 AND ST_BIT = 0 \<and>
   initSpecTimerData ! 1 AND ST_BIT = 0"
proof -
  have R: "0 < READ_TICKS" "1 < READ_TICKS"
    by (simp_all add: READ_TICKS_def TRAIL_TICKS_def)
  have "initSpecTimerData ! 0 AND ST_BIT = 0"
    by (simp add: nth_initSpecTimerData [OF R(1)] ST_BIT_def READY_BIT_def)
  moreover have "initSpecTimerData ! 1 AND ST_BIT = 0"
    using nth_initSpecTimerData [OF R(2)] by (simp add: ST_BIT_def READY_BIT_def)
  ultimately show ?thesis
    by (simp add: length_initSpecTimerData READ_TICKS_def ready_indices_initSpecTimerData)
qed

section \<open>The integration search of takeAutoMeasurement (C3)\<close>






text \<open>
  With a zero peak the division is by zero and its result is an infinity or a NaN, so the
  step is what the conversion routine makes of that.
\<close>

lemma float_step_zero_peak: "float_step target 0 ticks \<noteq> Finite q"
proof -
  have "fdiv x (Finite 0) \<noteq> Finite q" for x
    by (cases x) simp_all
  then show ?thesis by (simp add: float_step_def)
qed




section \<open>Black subtraction and bandpass correction (C4)\<close>

lemma getData_nonneg: "0 \<le> getData pixelIdx True dat black"
  by (simp add: getData_def)

text \<open>
  Claim C4, as the code has it. With bandpass correction disabled,
  \<^verbatim>\<open>getMeasurement(p, true)\<close> is the black-subtracted value of pixel \<open>p\<close> and
  is never negative, for every pixel and every pair of measurement and black-level
  vectors. With the correction enabled the neighbours enter with negative weights and the
  result is not clamped.
\<close>

theorem getMeasurement_black_nonneg:
  assumes "\<not> applyBandPassCorrection_m s" and "unat pixelIdx < SPEC_PIXELS"
  shows "0 \<le> getMeasurement pixelIdx True s"
  using assms by (simp add: getMeasurement_def getData_nonneg)

theorem getMeasurement_black_nonneg_witness:
  "\<not> applyBandPassCorrection_m
        (example_device\<lparr>data_m := (replicate SPEC_PIXELS 0)[1 := 1],
                         applyBandPassCorrection_m := False\<rparr>) \<and>
   unat (0 :: u16) < SPEC_PIXELS \<and>
   0 \<le> getMeasurement 0 True
         (example_device\<lparr>data_m := (replicate SPEC_PIXELS 0)[1 := 1],
                          applyBandPassCorrection_m := False\<rparr>)"
  using getMeasurement_black_nonneg
    [of "example_device\<lparr>data_m := (replicate SPEC_PIXELS 0)[1 := 1],
                          applyBandPassCorrection_m := False\<rparr>" 0]
  by (simp add: SPEC_PIXELS_def)

text \<open>
  With the correction enabled the claim fails: pixel 0 reads 0 and pixel 1 reads 1, the
  black levels are 0, and pixel 0 comes out as \<open>1.083 * 0 - 0.083 * 1\<close>.
\<close>

theorem getMeasurement_bandpass_negative_counterexample:
  "getMeasurement 0 True (example_device\<lparr>data_m := (replicate SPEC_PIXELS 0)[1 := 1]\<rparr>) < 0"
  by (simp add: getMeasurement_def getData_def example_device_def SPEC_PIXELS_def)

section \<open>Lead ticks and the external trigger (C5)\<close>

lemma LEAD_TICKS_init_lead_and_trigger:
  "LEAD_TICKS (init_lead_and_trigger extTrgMeasDelay doExtTriggering s) =
     (if doExtTriggering \<and> extPinTRG s \<noteq> NO_PIN \<and> extTrgMeasDelay > 0
      then (if uSecToTicks extTrgMeasDelay AND NOT 1 > of_nat (DEF_LEAD_TICKS + READ_TICKS + READ_TICKS)
            then (uSecToTicks extTrgMeasDelay AND NOT 1) - of_nat READ_TICKS - of_nat READ_TICKS
            else of_nat DEF_LEAD_TICKS)
      else of_nat DEF_LEAD_TICKS)"
  by (simp add: init_lead_and_trigger_def Let_def)

lemma LEAD_TICKS_startSpecTimer:
  "\<not> timerOn s \<Longrightarrow>
   LEAD_TICKS (startSpecTimer extTrgMeasDelay doExtTriggering s) =
     LEAD_TICKS (init_lead_and_trigger extTrgMeasDelay doExtTriggering
                   (s\<lparr>timerOn := True, specCounter := 0\<rparr>))"
  by (simp add: startSpecTimer_def Let_def)

text \<open>
  Claim C5, as the code has it. When an acquisition starts with external triggering, a
  wired trigger line and a positive delay, \<^verbatim>\<open>LEAD_TICKS\<close> is computed from the
  delay in ticks, made even. It is the default \<^verbatim>\<open>DEF_LEAD_TICKS\<close> exactly when
  that delay is at most \<open>DEF_LEAD_TICKS + 2 * READ_TICKS\<close>: the threshold is two
  readout passes plus the default lead, not plus the hold duration
  \<^verbatim>\<open>EXT_TRG_HIGH_TICKS\<close>. Above the threshold it is the delay minus the two
  readout passes.
\<close>

theorem lead_ticks_fallback:
  assumes "\<not> timerOn s" and "extPinTRG s \<noteq> NO_PIN" and "0 < extTrgMeasDelay"
  shows "(LEAD_TICKS (startSpecTimer extTrgMeasDelay True s) = of_nat DEF_LEAD_TICKS) =
           (uSecToTicks extTrgMeasDelay AND NOT 1 \<le> of_nat (DEF_LEAD_TICKS + 2 * READ_TICKS)) \<and>
         (of_nat (DEF_LEAD_TICKS + 2 * READ_TICKS) < uSecToTicks extTrgMeasDelay AND NOT 1 \<longrightarrow>
            LEAD_TICKS (startSpecTimer extTrgMeasDelay True s) =
              (uSecToTicks extTrgMeasDelay AND NOT 1) - of_nat (2 * READ_TICKS))"
proof -
  define d where "d = uSecToTicks extTrgMeasDelay AND NOT 1"
  have L: "LEAD_TICKS (startSpecTimer extTrgMeasDelay True s) =
             (if d > 4184 then d - 4120 else 64)"
    using assms
    by (simp add: LEAD_TICKS_startSpecTimer LEAD_TICKS_init_lead_and_trigger d_def READ_TICKS_eq
        DEF_LEAD_TICKS_def)
  have "d - 4120 \<noteq> 64" if "d > 4184"
  proof
    assume "d - 4120 = 64"
    then have "d = 64 + 4120" by (metis diff_add_cancel)
    with that show False by simp
  qed
  then show ?thesis
    unfolding L d_def [symmetric] by (auto simp: READ_TICKS_eq DEF_LEAD_TICKS_def not_less)
qed

theorem lead_ticks_fallback_witness:
  "\<not> timerOn (example_device\<lparr>extPinTRG := 3\<rparr>) \<and> extPinTRG (example_device\<lparr>extPinTRG := 3\<rparr>) \<noteq> NO_PIN
   \<and> (0::u32) < 50000 \<and>
   LEAD_TICKS (startSpecTimer 50000 True (example_device\<lparr>extPinTRG := 3\<rparr>)) = 5880"
proof -
  have a: "\<not> timerOn (example_device\<lparr>extPinTRG := 3\<rparr>)" by (simp add: example_device_def)
  have b: "extPinTRG (example_device\<lparr>extPinTRG := 3\<rparr>) \<noteq> NO_PIN" by (simp add: NO_PIN_def)
  have c: "(0::u32) < 50000" by simp
  have d: "uSecToTicks 50000 = 10000"
    by (simp add: uSecToTicks_def TIMER_US_FACTOR_def SPEC_CLK_TICK_TIMER_def)
  from lead_ticks_fallback [OF a b c] show ?thesis
    using a b by (simp add: d READ_TICKS_eq DEF_LEAD_TICKS_def)
qed

text \<open>
  The claim as the specification states it fails: a delay of 21100 microseconds is 4220
  ticks, less than two readout passes plus the hold duration (4120 + 200), yet the lead is
  100 ticks and not the default 64.
\<close>

theorem lead_ticks_hold_threshold_counterexample:
  "uSecToTicks 21100 < of_nat (2 * READ_TICKS) + EXT_TRG_HIGH_TICKS \<and>
   LEAD_TICKS (startSpecTimer 21100 True (example_device\<lparr>extPinTRG := 3\<rparr>)) \<noteq> of_nat DEF_LEAD_TICKS"
proof -
  have a: "\<not> timerOn (example_device\<lparr>extPinTRG := 3\<rparr>)" by (simp add: example_device_def)
  have b: "extPinTRG (example_device\<lparr>extPinTRG := 3\<rparr>) \<noteq> NO_PIN" by (simp add: NO_PIN_def)
  have d: "uSecToTicks 21100 = 4220"
    by (simp add: uSecToTicks_def TIMER_US_FACTOR_def SPEC_CLK_TICK_TIMER_def)
  show ?thesis
    using b
    by (simp add: LEAD_TICKS_startSpecTimer [OF a] LEAD_TICKS_init_lead_and_trigger d READ_TICKS_eq
        DEF_LEAD_TICKS_def EXT_TRG_HIGH_TICKS_eq)
qed

section \<open>The external light trigger (C6)\<close>

lemma spectroClockInterrupt_leave_RESET2:
  assumes "timerOn s" and "specState s = SPEC_RESET2"
    and "specCounter s + 1 = of_nat READ_TICKS"
    and "extPinLIGHT s \<noteq> NO_PIN" and "extPinTRG s \<noteq> extPinLIGHT s"
  shows "specState (spectroClockInterrupt s) = SPEC_INTEGRATION"
    and "pin_level (spectroClockInterrupt s) (extPinLIGHT s)"
  using assms
  by (simp_all add: spectroClockInterrupt_def Let_def process_trigger_sel tick_RESET2_sel)

lemma spectroClockInterrupt_enter_RESET2:
  assumes "timerOn s" and "specState s = SPEC_RESET"
    and "specCounter s + 1 = of_nat READ_TICKS"
    and "extPinTRG s \<noteq> extPinLIGHT s"
    and "specPinCLK s \<noteq> extPinLIGHT s" and "specPinST s \<noteq> extPinLIGHT s"
  shows "specState (spectroClockInterrupt s) = SPEC_RESET2"
    and "pin_level (spectroClockInterrupt s) (extPinLIGHT s) = pin_level s (extPinLIGHT s)"
  using assms
  by (simp_all add: spectroClockInterrupt_def Let_def process_trigger_sel tick_RESET_sel)

text \<open>
  Claim C6, as the code has it. With a light-trigger line configured (and distinct from
  the clock, start and external trigger lines), the timer interrupt that ends
  \<^verbatim>\<open>SPEC_RESET2\<close> and enters \<^verbatim>\<open>SPEC_INTEGRATION\<close> sets the line high; the
  interrupt that enters \<^verbatim>\<open>SPEC_RESET2\<close> from \<^verbatim>\<open>SPEC_RESET\<close> leaves the
  line as it was.
\<close>

theorem light_trigger_set_on_leaving_RESET2:
  assumes "timerOn s" and "extPinLIGHT s \<noteq> NO_PIN"
    and "specCounter s + 1 = of_nat READ_TICKS"
    and "extPinTRG s \<noteq> extPinLIGHT s"
    and "specPinCLK s \<noteq> extPinLIGHT s" and "specPinST s \<noteq> extPinLIGHT s"
  shows "(specState s = SPEC_RESET2 \<longrightarrow>
            specState (spectroClockInterrupt s) = SPEC_INTEGRATION \<and>
            pin_level (spectroClockInterrupt s) (extPinLIGHT s)) \<and>
         (specState s = SPEC_RESET \<longrightarrow>
            specState (spectroClockInterrupt s) = SPEC_RESET2 \<and>
            pin_level (spectroClockInterrupt s) (extPinLIGHT s) = pin_level s (extPinLIGHT s))"
  using assms spectroClockInterrupt_leave_RESET2 [of s] spectroClockInterrupt_enter_RESET2 [of s]
  by blast

text \<open>
  Two instances, one timer interrupt before the end of each reset pass, with the light
  trigger on line 4 and the line low.
\<close>

theorem light_trigger_set_on_leaving_RESET2_witness:
  "specState (spectroClockInterrupt
      (example_device\<lparr>timerOn := True, specState := SPEC_RESET2, specCounter := 2059,
                       extPinLIGHT := 4\<rparr>)) = SPEC_INTEGRATION \<and>
   pin_level (spectroClockInterrupt
      (example_device\<lparr>timerOn := True, specState := SPEC_RESET2, specCounter := 2059,
                       extPinLIGHT := 4\<rparr>)) 4 \<and>
   specState (spectroClockInterrupt
      (example_device\<lparr>timerOn := True, specState := SPEC_RESET, specCounter := 2059,
                       extPinLIGHT := 4\<rparr>)) = SPEC_RESET2 \<and>
   \<not> pin_level (spectroClockInterrupt
      (example_device\<lparr>timerOn := True, specState := SPEC_RESET, specCounter := 2059,
                       extPinLIGHT := 4\<rparr>)) 4"
proof -
  have "specState (spectroClockInterrupt
      (example_device\<lparr>timerOn := True, specState := SPEC_RESET2, specCounter := 2059,
                       extPinLIGHT := 4\<rparr>)) = SPEC_INTEGRATION \<and>
   pin_level (spectroClockInterrupt
      (example_device\<lparr>timerOn := True, specState := SPEC_RESET2, specCounter := 2059,
                       extPinLIGHT := 4\<rparr>)) 4"
    using light_trigger_set_on_leaving_RESET2
      [of "example_device\<lparr>timerOn := True, specState := SPEC_RESET2, specCounter := 2059,
                           extPinLIGHT := 4\<rparr>"]
    by (simp add: READ_TICKS_eq NO_PIN_def example_device_def)
  moreover have "specState (spectroClockInterrupt
      (example_device\<lparr>timerOn := True, specState := SPEC_RESET, specCounter := 2059,
                       extPinLIGHT := 4\<rparr>)) = SPEC_RESET2 \<and>
   \<not> pin_level (spectroClockInterrupt
      (example_device\<lparr>timerOn := True, specState := SPEC_RESET, specCounter := 2059,
                       extPinLIGHT := 4\<rparr>)) 4"
    using light_trigger_set_on_leaving_RESET2
      [of "example_device\<lparr>timerOn := True, specState := SPEC_RESET, specCounter := 2059,
                           extPinLIGHT := 4\<rparr>"]
    by (simp add: READ_TICKS_eq NO_PIN_def example_device_def)
  ultimately show ?thesis by simp
qed

text \<open>
  The claim as the specification states it fails: the light trigger is configured on
  line 4 and is low, the timer interrupt enters \<^verbatim>\<open>SPEC_RESET2\<close>, and the line is
  still low afterwards.
\<close>

theorem light_trigger_entering_RESET2_counterexample:
  "extPinLIGHT (example_device\<lparr>timerOn := True, specState := SPEC_RESET, specCounter := 2059,
                                extPinLIGHT := 4\<rparr>) \<noteq> NO_PIN \<and>
   specState (example_device\<lparr>timerOn := True, specState := SPEC_RESET, specCounter := 2059,
                              extPinLIGHT := 4\<rparr>) \<noteq> SPEC_RESET2 \<and>
   specState (spectroClockInterrupt
      (example_device\<lparr>timerOn := True, specState := SPEC_RESET, specCounter := 2059,
                       extPinLIGHT := 4\<rparr>)) = SPEC_RESET2 \<and>
   \<not> pin_level (spectroClockInterrupt
      (example_device\<lparr>timerOn := True, specState := SPEC_RESET, specCounter := 2059,
                       extPinLIGHT := 4\<rparr>)) 4"
  using spectroClockInterrupt_enter_RESET2
      [of "example_device\<lparr>timerOn := True, specState := SPEC_RESET, specCounter := 2059,
                           extPinLIGHT := 4\<rparr>"]
  by (simp add: READ_TICKS_eq NO_PIN_def example_device_def)

section \<open>Chromaticity (C7)\<close>

lemma calculateColourParam_xy:
  assumes "isConnected spectron" and "accumulateXYZ spectron 0 (0, 0, 0) = (X, Y, Z)"
  shows "calculateColourParam spectron out =
           (XYZtoCorColorTemp (X, Y, Z),
            if X + Y + Z = 0 then 0 else X / (X + Y + Z),
            if X + Y + Z = 0 then 0 else Y / (X + Y + Z))"
  using assms by (cases out) (simp add: calculateColourParam_def Let_def)

text \<open>
  Claim C7, as the code has it. For a connected device, \<^verbatim>\<open>calculateColourParam\<close>
  sets \<open>x\<close> and \<open>y\<close> to 0 when the accumulated sum \<open>X + Y + Z\<close> is exactly zero, and
  otherwise to \<open>X / (X + Y + Z)\<close> and \<open>Y / (X + Y + Z)\<close>: the guard is
  \<^verbatim>\<open>if (sumXYZ)\<close>, a test against zero and not against a threshold. For a device
  that is not connected it returns at once and leaves all three outputs as they were.
\<close>

theorem calculateColourParam_chromaticity:
  "(isConnected spectron \<and> accumulateXYZ spectron 0 (0, 0, 0) = (X, Y, Z) \<longrightarrow>
      fst (snd (calculateColourParam spectron out)) =
        (if X + Y + Z = 0 then 0 else X / (X + Y + Z)) \<and>
      snd (snd (calculateColourParam spectron out)) =
        (if X + Y + Z = 0 then 0 else Y / (X + Y + Z))) \<and>
   (\<not> isConnected spectron \<longrightarrow> calculateColourParam spectron out = out)"
proof (rule conjI; rule impI)
  assume a: "isConnected spectron \<and> accumulateXYZ spectron 0 (0, 0, 0) = (X, Y, Z)"
  have "calculateColourParam spectron out =
           (XYZtoCorColorTemp (X, Y, Z),
            if X + Y + Z = 0 then 0 else X / (X + Y + Z),
            if X + Y + Z = 0 then 0 else Y / (X + Y + Z))"
    by (intro calculateColourParam_xy conjunct1 [OF a] conjunct2 [OF a])
  then show "fst (snd (calculateColourParam spectron out)) =
        (if X + Y + Z = 0 then 0 else X / (X + Y + Z)) \<and>
      snd (snd (calculateColourParam spectron out)) =
        (if X + Y + Z = 0 then 0 else Y / (X + Y + Z))"
    by simp
next
  assume "\<not> isConnected spectron"
  then show "calculateColourParam spectron out = out"
    by (cases out) (simp add: calculateColourParam_def)
qed

text \<open>Each Gaussian of the colour-matching functions lies in \<open>(0, 1]\<close>.\<close>

lemma gauss_bounds: "0 < exp (- 0.5 * a * a) \<and> exp (- 0.5 * a * a) \<le> (1::real)"
proof -
  have "0 \<le> a * a" by simp
  then have "- 0.5 * a * a \<le> 0" by (simp add: mult.assoc)
  then show ?thesis by simp
qed

lemma xFunc_1931_bounds: "- 0.065 \<le> xFunc_1931 w \<and> xFunc_1931 w \<le> 1.418"
proof -
  have lin: "- 0.065 \<le> 0.362 * g1 + 1.056 * g2 - 0.065 * g3 \<and>
             0.362 * g1 + 1.056 * g2 - 0.065 * g3 \<le> 1.418"
    if "0 < g1 \<and> g1 \<le> 1" "0 < g2 \<and> g2 \<le> 1" "0 < g3 \<and> g3 \<le> 1" for g1 g2 g3 :: real
    using that by simp
  show ?thesis
    unfolding xFunc_1931_def Let_def by (rule lin [OF gauss_bounds gauss_bounds gauss_bounds])
qed

lemma yFunc_1931_bounds: "0 < yFunc_1931 w \<and> yFunc_1931 w \<le> 1.107"
proof -
  have lin: "0 < 0.821 * g1 + 0.286 * g2 \<and> 0.821 * g1 + 0.286 * g2 \<le> 1.107"
    if "0 < g1 \<and> g1 \<le> 1" "0 < g2 \<and> g2 \<le> 1" for g1 g2 :: real
    using that by simp
  show ?thesis
    unfolding yFunc_1931_def Let_def by (rule lin [OF gauss_bounds gauss_bounds])
qed

lemma zFunc_1931_bounds: "0 < zFunc_1931 w \<and> zFunc_1931 w \<le> 1.898"
proof -
  have lin: "0 < 1.217 * g1 + 0.681 * g2 \<and> 1.217 * g1 + 0.681 * g2 \<le> 1.898"
    if "0 < g1 \<and> g1 \<le> 1" "0 < g2 \<and> g2 \<le> 1" for g1 g2 :: real
    using that by simp
  show ?thesis
    unfolding zFunc_1931_def Let_def by (rule lin [OF gauss_bounds gauss_bounds])
qed

lemma zFunc_1931_437: "1.217 \<le> zFunc_1931 437"
proof -
  have "zFunc_1931 437 = 1.217 + 0.681 * exp (- 0.5 * ((437 - 459.0) * 0.0385) * ((437 - 459.0) * 0.0385))"
    by (simp add: zFunc_1931_def Let_def)
  moreover have "0 < exp (- 0.5 * ((437 - 459.0) * 0.0385) * ((437 - 459.0) * 0.0385) :: real)"
    by (rule exp_gt_zero)
  ultimately show ?thesis by simp
qed

lemma accumulateXYZ_faint_device:
  "accumulateXYZ faint_device 0 (0, 0, 0) =
     (1 / 10 ^ 30 * xFunc_1931 437, 1 / 10 ^ 30 * yFunc_1931 437, 1 / 10 ^ 30 * zFunc_1931 437)"
proof -
  have "accumulateXYZ faint_device 0 (0, 0, 0) =
        accumulateXYZ faint_device 1
          (1 / 10 ^ 30 * xFunc_1931 437, 1 / 10 ^ 30 * yFunc_1931 437,
           1 / 10 ^ 30 * zFunc_1931 437)"
    by (subst accumulateXYZ.simps) (simp add: faint_device_def)
  also have "\<dots> = (1 / 10 ^ 30 * xFunc_1931 437, 1 / 10 ^ 30 * yFunc_1931 437,
                    1 / 10 ^ 30 * zFunc_1931 437)"
    by (subst accumulateXYZ.simps) (simp add: faint_device_def)
  finally show ?thesis .
qed

lemma faint_device_sum:
  "0 < 1 / 10 ^ 30 * xFunc_1931 437 + 1 / 10 ^ 30 * yFunc_1931 437 + 1 / 10 ^ 30 * zFunc_1931 437"
  "1 / 10 ^ 30 * xFunc_1931 437 + 1 / 10 ^ 30 * yFunc_1931 437 + 1 / 10 ^ 30 * zFunc_1931 437
     < 1 / 10 ^ 20"
proof -
  define e :: real where "e = 1 / 10 ^ 30"
  define f where "f = xFunc_1931 437 + yFunc_1931 437 + zFunc_1931 437"
  have f: "1 \<le> f" "f \<le> 5"
    using xFunc_1931_bounds [of 437] yFunc_1931_bounds [of 437] zFunc_1931_bounds [of 437]
      zFunc_1931_437 unfolding f_def by simp_all
  have e: "0 < e" "e * 5 < 1 / 10 ^ 20" by (simp_all add: e_def)
  have s: "e * xFunc_1931 437 + e * yFunc_1931 437 + e * zFunc_1931 437 = e * f"
    by (simp add: f_def algebra_simps)
  have "0 < e * f" using e(1) f(1) by simp
  moreover have "e * f \<le> e * 5" using e(1) f(2) by simp
  ultimately show
    "0 < 1 / 10 ^ 30 * xFunc_1931 437 + 1 / 10 ^ 30 * yFunc_1931 437 + 1 / 10 ^ 30 * zFunc_1931 437"
    "1 / 10 ^ 30 * xFunc_1931 437 + 1 / 10 ^ 30 * yFunc_1931 437 + 1 / 10 ^ 30 * zFunc_1931 437
       < 1 / 10 ^ 20"
    using e(2) unfolding s [unfolded e_def] e_def by linarith+
qed

text \<open>
  Two instances: the faint source connected, and the same source not connected with the
  outputs holding 1, 2 and 3.
\<close>

theorem calculateColourParam_chromaticity_witness:
  "snd (snd (calculateColourParam faint_device (0, 0, 0))) =
     1 / 10 ^ 30 * yFunc_1931 437
       / (1 / 10 ^ 30 * xFunc_1931 437 + 1 / 10 ^ 30 * yFunc_1931 437
            + 1 / 10 ^ 30 * zFunc_1931 437) \<and>
   calculateColourParam (faint_device\<lparr>isConnected := False\<rparr>) (1, 2, 3) = (1, 2, 3)"
proof -
  have c: "isConnected faint_device" by (simp add: faint_device_def)
  have "snd (snd (calculateColourParam faint_device (0, 0, 0))) =
     1 / 10 ^ 30 * yFunc_1931 437
       / (1 / 10 ^ 30 * xFunc_1931 437 + 1 / 10 ^ 30 * yFunc_1931 437
            + 1 / 10 ^ 30 * zFunc_1931 437)"
    using calculateColourParam_chromaticity
      [of faint_device "1 / 10 ^ 30 * xFunc_1931 437" "1 / 10 ^ 30 * yFunc_1931 437"
          "1 / 10 ^ 30 * zFunc_1931 437" "(0, 0, 0)"]
      c accumulateXYZ_faint_device faint_device_sum(1)
    by simp
  moreover have "calculateColourParam (faint_device\<lparr>isConnected := False\<rparr>) (1, 2, 3) = (1, 2, 3)"
    using calculateColourParam_chromaticity
      [of "faint_device\<lparr>isConnected := False\<rparr>" 0 0 0 "(1, 2, 3)"]
    by simp
  ultimately show ?thesis by (rule conjI)
qed

text \<open>
  The faint source accumulates a positive sum below \<open>1 / 10 ^ 20\<close>, the threshold that
  \<^verbatim>\<open>XYZtoCorColorTemp\<close> uses for its own guard, and \<open>y\<close> is not set to 0.
\<close>

theorem calculateColourParam_threshold_counterexample:
  "fst (accumulateXYZ faint_device 0 (0, 0, 0)) + fst (snd (accumulateXYZ faint_device 0 (0, 0, 0)))
     + snd (snd (accumulateXYZ faint_device 0 (0, 0, 0))) < 1 / 10 ^ 20 \<and>
   snd (snd (calculateColourParam faint_device (0, 0, 0))) \<noteq> 0"
proof -
  have c: "isConnected faint_device" by (simp add: faint_device_def)
  have y: "0 < 1 / 10 ^ 30 * yFunc_1931 437"
    using yFunc_1931_bounds [of 437] by simp
  have "snd (snd (calculateColourParam faint_device (0, 0, 0))) =
     1 / 10 ^ 30 * yFunc_1931 437
       / (1 / 10 ^ 30 * xFunc_1931 437 + 1 / 10 ^ 30 * yFunc_1931 437
            + 1 / 10 ^ 30 * zFunc_1931 437)"
    using faint_device_sum(1)
    by (simp add: calculateColourParam_xy [OF c accumulateXYZ_faint_device])
  moreover have "0 < 1 / 10 ^ 30 * yFunc_1931 437
       / (1 / 10 ^ 30 * xFunc_1931 437 + 1 / 10 ^ 30 * yFunc_1931 437
            + 1 / 10 ^ 30 * zFunc_1931 437)"
    using y faint_device_sum(1) by (rule divide_pos_pos)
  ultimately have "0 < snd (snd (calculateColourParam faint_device (0, 0, 0)))"
    by (simp only:)
  then have "snd (snd (calculateColourParam faint_device (0, 0, 0))) \<noteq> 0"
    by simp
  moreover have "fst (accumulateXYZ faint_device 0 (0, 0, 0))
      + fst (snd (accumulateXYZ faint_device 0 (0, 0, 0)))
      + snd (snd (accumulateXYZ faint_device 0 (0, 0, 0))) < 1 / 10 ^ 20"
    unfolding accumulateXYZ_faint_device fst_conv snd_conv by (rule faint_device_sum(2))
  ultimately show ?thesis by (rule conjI [rotated])
qed

section \<open>Saturation voltages (C8)\<close>

lemma satVoltageHighGain_setSaturationVoltages:
  "satVoltageHighGain_m (setSaturationVoltages hg ng store s) =
     (if 0 < hg
      then (if MIN_SAT_VOLTAGE_HIGH_GAIN \<le> hg \<and> hg \<le> MAX_SAT_VOLTAGE_HIGH_GAIN then hg
            else MIN_SAT_VOLTAGE_HIGH_GAIN)
      else satVoltageHighGain_m s)"
  by (auto simp: setSaturationVoltages_def Let_def)

lemma satVoltageNoGain_setSaturationVoltages:
  "satVoltageNoGain_m (setSaturationVoltages hg ng store s) =
     (if 0 < ng
      then (if MIN_SAT_VOLTAGE_NO_GAIN \<le> ng \<and> ng \<le> MAX_SAT_VOLTAGE_NO_GAIN then ng
            else MIN_SAT_VOLTAGE_NO_GAIN)
      else satVoltageNoGain_m s)"
  by (auto simp: setSaturationVoltages_def Let_def)

text \<open>
  What the function does with each of its two inputs: an input is looked at only when it is
  positive; then a value within the Hamamatsu bounds is stored and any other value stores
  the minimum for that gain.
\<close>

lemma setSaturationVoltages_stored:
  "satVoltageHighGain_m (setSaturationVoltages hg ng store s) =
     (if 0 < hg then (if 2.3 \<le> hg \<and> hg \<le> 4.0 then hg else 2.3)
      else satVoltageHighGain_m s) \<and>
   satVoltageNoGain_m (setSaturationVoltages hg ng store s) =
     (if 0 < ng then (if 1.4 \<le> ng \<and> ng \<le> 2.7 then ng else 1.4)
      else satVoltageNoGain_m s)"
  by (simp add: satVoltageHighGain_setSaturationVoltages satVoltageNoGain_setSaturationVoltages
      MIN_SAT_VOLTAGE_HIGH_GAIN_def MAX_SAT_VOLTAGE_HIGH_GAIN_def
      MIN_SAT_VOLTAGE_NO_GAIN_def MAX_SAT_VOLTAGE_NO_GAIN_def)

text \<open>
  Claim C8. Every input outside the Hamamatsu bounds is to reset the stored saturation
  voltage to the minimum for its gain: the comment above \<^verbatim>\<open>setSaturationVoltages\<close>
  says so, and the constructor does it for the values it loads. The function misses the
  inputs that are zero or negative. With a stored high-gain saturation voltage of 3, the
  input \<open>- 1\<close> is below the lower bound 2.3, and the stored value stays 3 instead of
  becoming 2.3.
\<close>

theorem setSaturationVoltages_negative_input:
  "- 1 < MIN_SAT_VOLTAGE_HIGH_GAIN \<and>
   satVoltageHighGain_m
     (setSaturationVoltages (- 1) 2 False (example_device\<lparr>satVoltageHighGain_m := 3\<rparr>)) = 3 \<and>
   satVoltageHighGain_m
     (setSaturationVoltages (- 1) 2 False (example_device\<lparr>satVoltageHighGain_m := 3\<rparr>))
     \<noteq> MIN_SAT_VOLTAGE_HIGH_GAIN"
  by (simp add: satVoltageHighGain_setSaturationVoltages MIN_SAT_VOLTAGE_HIGH_GAIN_def)

section \<open>Setting and reading back the integration time (C9)\<close>

lemma INTEG_TICKS_setIntTime:
  "\<not> timerOn s \<Longrightarrow>
   INTEG_TICKS (setIntTime timeUs store s) =
     (let intTime = timeUs * 10;
          intTime = (if intTime < 113000 then 113000 else intTime);
          intTime = (if intTime > 100000000 then 100000000 else intTime);
          ticks = intTime div 50 - 2060 + 1;
          ticks = (if ticks = 0 then 200 else ticks)
      in if ticks AND 1 \<noteq> 0 then ticks + 1 else ticks)"
  by (simp add: setIntTime_def Let_def READ_TICKS_eq TIMER_US_FACTOR_def SPEC_CLK_TICK_TIMER_def
      MIN_INTEG_TIME_US_def MAX_INTEG_TIME_US_def uSecToTicks_def)

lemma getIntTime_eq: "getIntTime s = (INTEG_TICKS s + 2060) * 50 div 10"
  by (simp add: getIntTime_def ticksToUsec_def READ_TICKS_eq TIMER_US_FACTOR_def
      SPEC_CLK_TICK_TIMER_def)

text \<open>The arithmetic of the two functions on a request within the supported range.\<close>

lemma setIntTime_ticks:
  fixes timeUs :: u32
  assumes lo: "11300 \<le> timeUs" and hi: "timeUs \<le> 10000000"
  defines "ticks \<equiv> timeUs * 10 div 50 - 2060 + 1"
  shows "\<not> timeUs * 10 < 113000" and "\<not> timeUs * 10 > 100000000"
    and "unat ticks = unat timeUs div 5 - 2059" and "ticks \<noteq> 0"
    and "ticks AND 1 \<noteq> 0 \<longleftrightarrow> odd (unat ticks)"
proof -
  have n: "11300 \<le> unat timeUs" "unat timeUs \<le> 10000000"
    using lo hi by (simp_all add: word_le_nat_alt)
  have m: "unat (timeUs * 10) = unat timeUs * 10"
    using n by (simp add: unat_word_ariths)
  show "\<not> timeUs * 10 < 113000" using n by (simp add: word_less_nat_alt m)
  show "\<not> timeUs * 10 > 100000000" using n by (simp add: word_less_nat_alt m)
  have q: "unat (timeUs * 10 div 50) = unat timeUs div 5"
    by (simp add: unat_div m)
  have q_lo: "2260 \<le> unat timeUs div 5" "unat timeUs div 5 \<le> 2000000" using n by simp_all
  have "2059 \<le> timeUs * 10 div 50" using q_lo by (simp add: word_le_nat_alt q)
  then have d: "unat (timeUs * 10 div 50 - 2059) = unat timeUs div 5 - 2059"
    by (simp add: unat_sub q)
  have "ticks = timeUs * 10 div 50 - 2059" by (simp add: ticks_def)
  with d show t: "unat ticks = unat timeUs div 5 - 2059" by simp
  then have "unat ticks \<noteq> 0" using q_lo by simp
  then show "ticks \<noteq> 0" by (metis unat_0)
  show "ticks AND 1 \<noteq> 0 \<longleftrightarrow> odd (unat ticks)"
    by (simp add: and_one_eq word_eq_iff_unsigned [where ?'a = nat] unat_mod
        odd_iff_mod_2_eq_one)
qed

text \<open>
  Claim C9, as the code has it. For a request of \<open>timeUs\<close> microseconds between 11300
  and 10000000, \<^verbatim>\<open>getIntTime()\<close> after \<^verbatim>\<open>setIntTime(timeUs)\<close> returns
  \<open>10 * (timeUs div 10) + 10\<close>: a whole, even number of 5-microsecond ticks, always above
  the request and at most 10 microseconds above it. The request itself is not returned,
  even when it is a whole number of ticks.
\<close>

theorem getIntTime_setIntTime:
  assumes "\<not> timerOn s" and "11300 \<le> timeUs" and "timeUs \<le> 10000000"
  shows "getIntTime (setIntTime timeUs store s) = 10 * (timeUs div 10) + 10"
proof -
  define ticks where "ticks = timeUs * 10 div 50 - 2060 + 1"
  note a = setIntTime_ticks [OF assms(2,3), folded ticks_def]
  have n: "11300 \<le> unat timeUs" "unat timeUs \<le> 10000000"
    using assms(2,3) by (simp_all add: word_le_nat_alt)
  have q: "2260 \<le> unat timeUs div 5" "unat timeUs div 5 \<le> 2000000" using n by simp_all
  define k where "k = (if odd (unat ticks) then ticks + 1 else ticks)"
  have I: "INTEG_TICKS (setIntTime timeUs store s) = k"
    using a(1,2,4,5) assms(1) by (simp add: INTEG_TICKS_setIntTime Let_def ticks_def k_def)
  have uk: "unat k = unat ticks + (if odd (unat ticks) then 1 else 0)"
  proof (cases "odd (unat ticks)")
    case True
    have "unat (ticks + 1) = (unat ticks + 1) mod 2 ^ 32"
      by (simp add: unat_word_ariths)
    also have "\<dots> = unat ticks + 1"
      using a(3) q by simp
    finally show ?thesis using True by (simp add: k_def)
  next
    case False
    then show ?thesis by (simp add: k_def)
  qed
  define a where "a = unat timeUs div 5"
  define b where "b = unat ticks"
  have ab: "a = b + 2059" "201 \<le> b" "b \<le> 1997941"
    using a(3) q by (simp_all add: a_def b_def)
  have uk': "unat k = b + (if odd b then 1 else 0)"
    using uk by (simp add: b_def)
  have "unat ((k + 2060) * 50 div 10) = (unat k + 2060) * 50 div 10"
    using uk' ab(2,3) by (simp add: unat_div unat_word_ariths)
  also have "\<dots> = 10 * (a div 2) + 10"
  proof (cases "odd b")
    case True
    then obtain c where c: "b = 2 * c + 1" by (elim oddE)
    have "(b + 1 + 2060) * 50 div 10 = 10 * c + 10310" unfolding c by simp
    moreover have "(b + 2059) div 2 = c + 1030" unfolding c by simp
    ultimately show ?thesis using True by (simp add: uk' ab(1))
  next
    case False
    then have "even b" by simp
    then obtain c where c: "b = 2 * c" by (elim evenE)
    have "(b + 2060) * 50 div 10 = 10 * c + 10300" unfolding c by simp
    moreover have "(b + 2059) div 2 = c + 1029" unfolding c by simp
    ultimately show ?thesis using False by (simp add: uk' ab(1))
  qed
  also have "a div 2 = unat timeUs div 10"
    by (simp add: a_def div_mult2_eq [symmetric])
  also have "10 * (unat timeUs div 10) + 10 = unat (10 * (timeUs div 10) + 10)"
    using n by (simp add: unat_word_ariths unat_div)
  finally show ?thesis
    unfolding getIntTime_eq I by (simp only: word_unat_eq_iff)
qed

theorem getIntTime_setIntTime_witness:
  "\<not> timerOn example_device \<and> (11300::u32) \<le> 20000 \<and> (20000::u32) \<le> 10000000 \<and>
   getIntTime (setIntTime 20000 False example_device) = 20010"
  using getIntTime_setIntTime [of example_device 20000 False]
  by (simp add: example_device_def)

text \<open>
  A request of 20000 microseconds is 4000 ticks, a whole and even number; rounding it to
  the tick grid leaves 20000, but the driver reads back 20010.
\<close>

theorem getIntTime_setIntTime_counterexample:
  "ticksToUsec (uSecToTicks 20000) = 20000 \<and>
   getIntTime (setIntTime 20000 False example_device) \<noteq> 20000"
proof -
  have "\<not> timerOn example_device" by (simp add: example_device_def)
  then have "INTEG_TICKS (setIntTime 20000 False example_device) = 1942"
    by (simp add: INTEG_TICKS_setIntTime)
  then show ?thesis
    by (simp add: getIntTime_eq ticksToUsec_def uSecToTicks_def TIMER_US_FACTOR_def
        SPEC_CLK_TICK_TIMER_def)
qed

section \<open>A one-off duration leaves the integration setting (C10)\<close>

lemma readADC_sel:
  "INTEG_TICKS (readADC b d c s) = INTEG_TICKS s"
  "LEAD_TICKS (readADC b d c s) = LEAD_TICKS s"
  "timerOn (readADC b d c s) = timerOn s"
  "specState (readADC b d c s) = specState s"
  "specCounter (readADC b d c s) = specCounter s"
  by (simp_all add: readADC_def Let_def split: option.split)

lemma spectroTRGInterrupt_sel:
  "INTEG_TICKS (spectroTRGInterrupt adc s) = INTEG_TICKS s"
  "LEAD_TICKS (spectroTRGInterrupt adc s) = LEAD_TICKS s"
  "timerOn (spectroTRGInterrupt adc s) = timerOn s"
  "specState (spectroTRGInterrupt adc s) = specState s"
  "specCounter (spectroTRGInterrupt adc s) = specCounter s"
  by (simp_all add: spectroTRGInterrupt_def Let_def readADC_sel split: option.split)

lemma phase_rank_next_state: "st \<noteq> SPEC_STOP \<Longrightarrow> phase_rank (next_state st) < phase_rank st"
  by (cases st) (simp_all add: next_state_def)

lemma unat_pred_less: "(x :: u32) \<noteq> 0 \<Longrightarrow> unat (x - 1) < unat x"
  by (simp add: unat_minus_one unat_gt_0)

lemma word_dist_nonzero: "(c :: u32) + 1 \<noteq> T \<Longrightarrow> T - c - 1 \<noteq> 0"
proof
  assume a: "c + 1 \<noteq> T" and b: "T - c - 1 = 0"
  have "T - (c + 1) = 0" using b by (simp add: diff_diff_eq)
  then have "T = c + 1" by simp
  with a show False by simp
qed

text \<open>
  One timer period, the timer interrupt followed by the TRG interrupt, brings a running
  acquisition nearer to \<^verbatim>\<open>SPEC_STOP\<close>: either the state moves on, or the state
  stays and one interrupt fewer is left in it.
\<close>

lemma timer_period_progress:
  assumes "timerOn s" and "specState s \<noteq> SPEC_STOP"
  shows "timerOn (spectroTRGInterrupt adc (spectroClockInterrupt s))"
    and "INTEG_TICKS (spectroTRGInterrupt adc (spectroClockInterrupt s)) = INTEG_TICKS s"
    and "(spectroTRGInterrupt adc (spectroClockInterrupt s), s)
           \<in> measures [\<lambda>s. phase_rank (specState s), ticks_to_go]"
proof -
  let ?s' = "spectroTRGInterrupt adc (spectroClockInterrupt s)"
  show "timerOn ?s'" using assms(1)
    by (simp add: spectroTRGInterrupt_sel spectroClockInterrupt_frame)
  show "INTEG_TICKS ?s' = INTEG_TICKS s"
    by (simp add: spectroTRGInterrupt_sel spectroClockInterrupt_frame)
  have st: "specState ?s' =
              (if specCounter s + 1 = phase_target s then next_state (specState s) else specState s)"
    and cn: "specCounter ?s' = (if specCounter s + 1 = phase_target s then 0 else specCounter s + 1)"
    using spectroClockInterrupt_state [OF assms] by (simp_all add: spectroTRGInterrupt_sel)
  show "(?s', s) \<in> measures [\<lambda>s. phase_rank (specState s), ticks_to_go]"
  proof (cases "specCounter s + 1 = phase_target s")
    case True
    then show ?thesis using st assms(2) by (simp add: phase_rank_next_state)
  next
    case False
    have same: "specState ?s' = specState s" "specCounter ?s' = specCounter s + 1"
      using False st cn by simp_all
    have "specState (spectroClockInterrupt s) = specState s"
      using False spectroClockInterrupt_state(1) [OF assms] by simp
    then have tg: "phase_target ?s' = phase_target s"
      by (simp add: phase_target_def spectroTRGInterrupt_sel spectroClockInterrupt_frame
          split: spec_state_t.split)
    have "phase_target s - specCounter s - 1 \<noteq> 0"
      using False by (rule word_dist_nonzero)
    then have "unat (phase_target s - specCounter s - 1 - 1) < unat (phase_target s - specCounter s - 1)"
      by (rule unat_pred_less)
    moreover have "phase_target s - (specCounter s + 1) - 1 = phase_target s - specCounter s - 1 - 1"
      by simp
    ultimately have "ticks_to_go ?s' < ticks_to_go s"
      by (simp add: ticks_to_go_def tg same)
    then show ?thesis by (simp add: same)
  qed
qed

text \<open>With the timer on, the busy wait ends, and \<^verbatim>\<open>INTEG_TICKS\<close> is as before.\<close>

lemma waitStop_terminates:
  "timerOn s \<Longrightarrow>
   \<exists>s'. waitStop adc s = Some s' \<and> specState s' = SPEC_STOP \<and> INTEG_TICKS s' = INTEG_TICKS s"
proof (induction s rule: wf_induct_rule [OF wf_measures [of "[\<lambda>s. phase_rank (specState s), ticks_to_go]"]])
  case (1 s)
  show ?case
  proof (cases "specState s = SPEC_STOP")
    case True
    then show ?thesis by (subst waitStop.simps) simp
  next
    case False
    let ?s' = "spectroTRGInterrupt adc (spectroClockInterrupt s)"
    note p = timer_period_progress [OF "1.prems" False, of adc]
    from "1.IH" [OF p(3) p(1)] obtain s'' where
      "waitStop adc ?s' = Some s''" "specState s'' = SPEC_STOP" "INTEG_TICKS s'' = INTEG_TICKS ?s'"
      by blast
    then show ?thesis
      using False p(2) by (subst waitStop.simps) simp
  qed
qed

lemma timerOn_init_lead_and_trigger:
  "timerOn (init_lead_and_trigger d e s) = timerOn s"
  by (simp add: init_lead_and_trigger_def Let_def)

lemma timerOn_startSpecTimer: "timerOn (startSpecTimer d e s)"
  by (simp add: startSpecTimer_def Let_def timerOn_init_lead_and_trigger)

lemma stopSpecTimer_INTEG_TICKS: "INTEG_TICKS (stopSpecTimer s) = INTEG_TICKS s"
  by (simp add: stopSpecTimer_def Let_def)

lemma timerOn_readSpectrometer_setup: "timerOn (readSpectrometer_setup timeUs doExt doLight s)"
  unfolding readSpectrometer_setup_def Let_def by (rule timerOn_startSpecTimer)

lemma INTEG_TICKS_readSpectrometer_cleanup:
  "0 < timeUs \<Longrightarrow> INTEG_TICKS (readSpectrometer_cleanup timeUs saved s) = saved"
  by (simp add: readSpectrometer_cleanup_def Let_def)

lemma readSpectrometer_restores:
  assumes "0 < timeUs"
  shows "\<exists>s'. readSpectrometer adc timeUs doExt doLight s = Some s' \<and>
              INTEG_TICKS s' = INTEG_TICKS s"
proof (cases "timerOn s")
  case True
  then show ?thesis by (simp add: readSpectrometer_def)
next
  case False
  from waitStop_terminates [OF timerOn_readSpectrometer_setup, of adc timeUs doExt doLight s]
  obtain s2 where "waitStop adc (readSpectrometer_setup timeUs doExt doLight s) = Some s2"
    by blast
  then show ?thesis
    using False assms
    by (simp add: readSpectrometer_def Let_def INTEG_TICKS_readSpectrometer_cleanup)
qed

text \<open>
  Claim C10. For every non-zero duration, \<^verbatim>\<open>readSpectrometer\<close> returns, and
  \<^verbatim>\<open>INTEG_TICKS\<close> is then what it was before the call; the same holds for
  \<^verbatim>\<open>takeMeasurement\<close> and \<^verbatim>\<open>takeBlackMeasurement\<close>, which call it. The
  one-off duration does not replace the configured integration.
\<close>

theorem duration_override_restored:
  assumes "0 < timeUs"
  shows "map_option INTEG_TICKS (readSpectrometer adc timeUs doExt doLight s) = Some (INTEG_TICKS s) \<and>
         map_option INTEG_TICKS (takeMeasurement adc timeUs doExt s) = Some (INTEG_TICKS s) \<and>
         map_option INTEG_TICKS (takeBlackMeasurement adc timeUs s) = Some (INTEG_TICKS s)"
proof (intro conjI)
  show "map_option INTEG_TICKS (readSpectrometer adc timeUs doExt doLight s) = Some (INTEG_TICKS s)"
    using readSpectrometer_restores [OF assms, of adc doExt doLight s] by auto
  show "map_option INTEG_TICKS (takeMeasurement adc timeUs doExt s) = Some (INTEG_TICKS s)"
  proof (cases "timerOn s \<or> measuringData_m s")
    case True
    then show ?thesis by (simp add: takeMeasurement_def)
  next
    case False
    from readSpectrometer_restores [OF assms, of adc doExt doExt "s\<lparr>measuringData_m := True\<rparr>"]
    obtain s' where "readSpectrometer adc timeUs doExt doExt (s\<lparr>measuringData_m := True\<rparr>) = Some s'"
      and "INTEG_TICKS s' = INTEG_TICKS s" by auto
    then show ?thesis using False by (simp add: takeMeasurement_def)
  qed
  show "map_option INTEG_TICKS (takeBlackMeasurement adc timeUs s) = Some (INTEG_TICKS s)"
  proof (cases "timerOn s \<or> measuringData_m s")
    case True
    then show ?thesis by (simp add: takeBlackMeasurement_def)
  next
    case False
    from readSpectrometer_restores [OF assms, of adc False False "s\<lparr>measuringData_m := True\<rparr>"]
    obtain s' where "readSpectrometer adc timeUs False False (s\<lparr>measuringData_m := True\<rparr>) = Some s'"
      and "INTEG_TICKS s' = INTEG_TICKS s" by auto
    then show ?thesis using False by (simp add: takeBlackMeasurement_def)
  qed
qed

text \<open>
  An instance: the device at rest has 17942 integration ticks configured; a measurement of
  20 ms, with a converter that reads 0 and completes one conversion per pixel, leaves them.
\<close>

theorem duration_override_restored_witness:
  "(0 :: u32) < 20000 \<and>
   map_option INTEG_TICKS (readSpectrometer (\<lambda>k. (0, None)) 20000 False False example_device)
     = Some 17942 \<and>
   map_option INTEG_TICKS (takeMeasurement (\<lambda>k. (0, None)) 20000 False example_device)
     = Some 17942 \<and>
   map_option INTEG_TICKS (takeBlackMeasurement (\<lambda>k. (0, None)) 20000 example_device)
     = Some 17942"
  using duration_override_restored [of 20000 "\<lambda>k. (0, None)" False False example_device]
  by (simp add: example_device_def)

end
